theory Spec2Isabelle
  imports Complex_Main
begin

section \<open>Values, errors and tensor helpers\<close>

text \<open>
  The environment of \<^verbatim>\<open>dodo_env.py\<close> keeps its state in torch tensors whose first
  dimension is the environment row. A tensor of shape (N, k) is modelled as a list of N
  rows; rows of a fixed small width (3-vectors, quaternions, the two feet) are tuples, rows
  whose width comes from the configuration are lists. The float tensors are float32, a
  Python float is a float64 number; both are modelled as the real number they denote, and
  an addition, subtraction, multiplication or division of the source is the exact operation
  followed by the rounding of its format (\<open>f32\<close>, \<open>f64\<close> below). Comparisons, sign, abs, max
  and relu are exact on floats. The 0/1 float tensors produced by \<^verbatim>\<open>.float()\<close> are the reals 0
  and 1; a product with such a flag and a sum with 0 are exact and carry no rounding.
  Infinities and NaN are outside the model. The int32 step counter wraps around (\<open>int32\<close>).
  Python-level failures (a missing dict key, a missing attribute, \<^verbatim>\<open>list.index\<close>, an integer
  index out of range, a division by zero) are values of type \<open>error\<close>; a function that can
  raise returns \<open>error + 'a\<close>. Shape mismatches between whole tensors are outside the model:
  the theorems state the shapes they rely on.
\<close>

subsection \<open>Floating-point rounding\<close>

text \<open>
  Rounding to nearest, ties to even, of a real to a binary format with \<open>p\<close> significant bits
  whose smallest positive number is \<open>2 ^ emin\<close>: the number is scaled so that its integer
  part has \<open>p\<close> bits (fewer in the subnormal range), rounded to an integer, and scaled back.
  float32 has 24 significant bits and smallest positive number 2^-149, float64 has 53 and
  2^-1074. Where a Python float meets a float32 tensor in an operation, torch casts the
  Python float to float32 first.
\<close>

definition pow2 :: "int \<Rightarrow> real" where
  "pow2 e = (if 0 \<le> e then 2 ^ nat e else 1 / 2 ^ nat (- e))"

definition rne :: "real \<Rightarrow> int" where
  \<comment> \<open>the nearest integer, the even one of two nearest\<close>
  "rne x = (let f = \<lfloor>x\<rfloor>; d = x - of_int f
            in if d < 1 / 2 then f else if 1 / 2 < d then f + 1
               else if even f then f else f + 1)"

definition float_round :: "nat \<Rightarrow> int \<Rightarrow> real \<Rightarrow> real" where
  "float_round p emin x =
     (if x = 0 then 0
      else (let e = max (\<lfloor>log 2 \<bar>x\<bar>\<rfloor> - int p + 1) emin
            in of_int (rne (x / pow2 e)) * pow2 e))"

definition f32 :: "real \<Rightarrow> real" where
  "f32 = float_round 24 (- 149)"

definition f64 :: "real \<Rightarrow> real" where
  "f64 = float_round 53 (- 1074)"

definition int32 :: "int \<Rightarrow> int" where
  \<comment> \<open>the value an int32 tensor element holds after an operation with exact result \<open>n\<close>\<close>
  "int32 n = (n + 2 ^ 31) mod 2 ^ 32 - 2 ^ 31"

subsection \<open>Vectors, errors, dicts and row updates\<close>

type_synonym vec3 = "real \<times> real \<times> real"
type_synonym quat = "real \<times> real \<times> real \<times> real"

datatype error =
  KeyError string
| AttributeError string
| ValueError string
| IndexError
| ZeroDivisionError

fun x3 :: "vec3 \<Rightarrow> real" where "x3 (a, b, c) = a"
fun y3 :: "vec3 \<Rightarrow> real" where "y3 (a, b, c) = b"
fun z3 :: "vec3 \<Rightarrow> real" where "z3 (a, b, c) = c"

definition b2f :: "bool \<Rightarrow> real" where
  \<comment> \<open>\<^verbatim>\<open>.float()\<close> of a boolean tensor element\<close>
  "b2f b = (if b then 1 else 0)"

definition relu :: "real \<Rightarrow> real" where
  "relu x = max x 0"

definition clip :: "real \<Rightarrow> real \<Rightarrow> real \<Rightarrow> real" where
  \<comment> \<open>\<^verbatim>\<open>torch.clip(x, lo, hi)\<close>\<close>
  "clip lo hi x = min (max x lo) hi"

definition py_int :: "real \<Rightarrow> int" where
  \<comment> \<open>Python \<^verbatim>\<open>int(x)\<close> of a float: truncation towards zero\<close>
  "py_int x = (if 0 \<le> x then \<lfloor>x\<rfloor> else \<lceil>x\<rceil>)"

text \<open>Python dicts keep insertion order; assigning to an existing key keeps its place.\<close>

fun dict_set :: "('k \<times> 'v) list \<Rightarrow> 'k \<Rightarrow> 'v \<Rightarrow> ('k \<times> 'v) list" where
  "dict_set [] k v = [(k, v)]"
| "dict_set ((k', v') # d) k v = (if k' = k then (k, v) # d else (k', v') # dict_set d k v)"

definition dict_get :: "(string \<times> 'v) list \<Rightarrow> string \<Rightarrow> error + 'v" where
  "dict_get d k = (case map_of d k of None \<Rightarrow> Inl (KeyError k) | Some v \<Rightarrow> Inr v)"

definition map_get :: "(string \<rightharpoonup> 'v) \<Rightarrow> string \<Rightarrow> error + 'v" where
  "map_get d k = (case d k of None \<Rightarrow> Inl (KeyError k) | Some v \<Rightarrow> Inr v)"

definition get_default :: "(string \<rightharpoonup> 'v) \<Rightarrow> string \<Rightarrow> 'v \<Rightarrow> 'v" where
  \<comment> \<open>\<^verbatim>\<open>d.get(k, default)\<close>\<close>
  "get_default d k v = (case d k of None \<Rightarrow> v | Some w \<Rightarrow> w)"

fun list_index :: "string list \<Rightarrow> string \<Rightarrow> error + nat" where
  \<comment> \<open>\<^verbatim>\<open>names.index(name)\<close>\<close>
  "list_index [] name = Inl (ValueError name)"
| "list_index (n # ns) name =
     (if n = name then Inr 0
      else (case list_index ns name of Inl e \<Rightarrow> Inl e | Inr i \<Rightarrow> Inr (Suc i)))"

fun lookup_all :: "(string \<rightharpoonup> 'v) \<Rightarrow> string list \<Rightarrow> error + 'v list" where
  \<comment> \<open>\<^verbatim>\<open>[d[j] for j in names]\<close>\<close>
  "lookup_all d [] = Inr []"
| "lookup_all d (j # js) =
     (case d j of None \<Rightarrow> Inl (KeyError j)
      | Some v \<Rightarrow> (case lookup_all d js of Inl e \<Rightarrow> Inl e | Inr vs \<Rightarrow> Inr (v # vs)))"

definition col :: "nat \<Rightarrow> nat \<Rightarrow> real list list \<Rightarrow> error + real list" where
  \<comment> \<open>\<^verbatim>\<open>t[:, i]\<close> of a tensor with \<open>w\<close> columns\<close>
  "col w i rows = (if i < w then Inr (map (\<lambda>r. r ! i) rows) else Inl IndexError)"

definition fill_rows :: "'a list \<Rightarrow> nat list \<Rightarrow> 'a \<Rightarrow> 'a list" where
  \<comment> \<open>\<^verbatim>\<open>t[env_ids] = v\<close>, one value for every listed row\<close>
  "fill_rows rows env_ids v = fold (\<lambda>i t. t[i := v]) env_ids rows"

definition scatter_rows :: "'a list \<Rightarrow> nat list \<Rightarrow> 'a list \<Rightarrow> 'a list" where
  \<comment> \<open>\<^verbatim>\<open>t[env_ids] = vs\<close>, one value per listed row\<close>
  "scatter_rows rows env_ids vs = fold (\<lambda>(i, v) t. t[i := v]) (zip env_ids vs) rows"

definition set_col :: "nat \<Rightarrow> real list list \<Rightarrow> nat list \<Rightarrow> real list \<Rightarrow> real list list" where
  \<comment> \<open>\<^verbatim>\<open>t[env_ids, c] = vs\<close>\<close>
  "set_col c rows env_ids vs = fold (\<lambda>(i, v) t. t[i := (t ! i)[c := v]]) (zip env_ids vs) rows"

definition gather_rows :: "'a list \<Rightarrow> nat list \<Rightarrow> 'a list" where
  \<comment> \<open>\<^verbatim>\<open>t[env_ids]\<close>\<close>
  "gather_rows rows env_ids = map (\<lambda>i. rows ! i) env_ids"

definition nonzero :: "bool list \<Rightarrow> nat list" where
  \<comment> \<open>\<^verbatim>\<open>mask.nonzero(as_tuple=False).flatten()\<close>\<close>
  "nonzero flags = filter (\<lambda>i. flags ! i) [0..<length flags]"

section \<open>Random draws\<close>

text \<open>
  \<^verbatim>\<open>torch.rand(size=(k,))\<close> returns k numbers of the half-open unit interval. The generator
  is outside the program: a call's result is read from an oracle \<open>r\<close>, the j-th number being
  \<open>r j\<close>. One call of \<^verbatim>\<open>_resample_commands\<close> makes three such calls.
\<close>

type_synonym draws = "(nat \<Rightarrow> real) \<times> (nat \<Rightarrow> real) \<times> (nat \<Rightarrow> real)"

definition torch_rand :: "(nat \<Rightarrow> real) \<Rightarrow> nat \<Rightarrow> real list" where
  "torch_rand r k = map r [0..<k]"

text \<open>
  In \<^verbatim>\<open>(upper - lower) * torch.rand(...) + lower\<close> the difference is taken between two Python
  floats; the product and the sum are float32 tensor operations, each with its Python
  operand cast to float32.
\<close>

definition gs_rand_float :: "real \<Rightarrow> real \<Rightarrow> nat \<Rightarrow> (nat \<Rightarrow> real) \<Rightarrow> real list" where
  "gs_rand_float lower upper k r =
     map (\<lambda>u. f32 (f32 (f32 (f64 (upper - lower)) * u) + f32 lower)) (torch_rand r k)"

section \<open>The simulation backend\<close>

text \<open>
  The Genesis simulator and its geometry helpers are not code of this repository. The
  helpers and the joint table of the loaded robot are parameters of the model; what the
  simulator reports after a physics tick is an input of \<open>step\<close>; the calls that write to
  the simulator are recorded in order.
\<close>

record genesis =
  quat_to_xyz :: "quat \<Rightarrow> vec3"
  transform_by_quat :: "vec3 \<Rightarrow> quat \<Rightarrow> vec3"
  inv_quat :: "quat \<Rightarrow> quat"
  transform_quat_by_quat :: "quat \<Rightarrow> quat \<Rightarrow> quat"
  dof_start :: "string \<Rightarrow> nat"

record sim_reading =
  right_foot_pos :: "vec3 list"
  right_foot_quat :: "quat list"
  left_foot_pos :: "vec3 list"
  left_foot_quat :: "quat list"
  robot_pos :: "vec3 list"
  robot_quat :: "quat list"
  robot_vel :: "vec3 list"
  robot_ang :: "vec3 list"
  dofs_position :: "real list list"
  dofs_velocity :: "real list list"

datatype sim_call =
  Set_dofs_kp "real list" "nat list"
| Set_dofs_kv "real list" "nat list"
| Set_dofs_force_range "real list" "real list" "nat list"
| Control_dofs_position "real list list" "nat list"
| Scene_step
| Set_dofs_position "real list list" "nat list" bool "nat list"
| Set_pos "vec3 list" bool "nat list"
| Set_quat "quat list" bool "nat list"
| Zero_all_dofs_velocity "nat list"

section \<open>Configuration\<close>

text \<open>
  The four configuration dicts. A key the source reads with \<^verbatim>\<open>.get\<close> somewhere is optional;
  the nested dicts are maps or, where the iteration order matters, association lists.
\<close>

record env_config =
  cfg_num_actions :: nat
  cfg_simulate_action_latency :: "bool option"
  episode_length_s :: real
  cfg_base_init_pos :: vec3
  cfg_base_init_quat :: quat
  joint_names :: "string list"
  kp :: real
  kd :: real
  clip_actions :: "real option"
  default_joint_angles :: "string \<rightharpoonup> real"
  action_scale :: real
  resampling_time_s :: real
  termination_if_pitch_greater_than :: real
  termination_if_roll_greater_than :: real

record obs_config =
  cfg_num_obs :: nat
  cfg_obs_scales :: "string \<rightharpoonup> real"

record reward_config =
  cfg_reward_scales :: "(string \<times> real) list"
  tracking_sigma :: real
  base_height_target :: real

record command_config =
  cfg_num_commands :: nat
  lin_vel_x_range :: "real \<times> real"
  lin_vel_y_range :: "real \<times> real"
  ang_vel_range :: "real \<times> real"

section \<open>The environment state\<close>

datatype reward_fn =
  Tracking_lin_vel | Tracking_ang_vel | Lin_vel_z | Action_rate | Similar_to_default
| Base_height | Orientation_stability | Survive | Penalize_hip_aa | Penalize_hip_fe
| Penalize_hip_fe_diff | Penalize_knee_fe_left | Penalize_knee_fe_right
| Penalize_ankle_height | Gait_regularity | Foot_orientation | Step_height_consistency
| Foot_contact_penalty | Foot_contact_switch

record extras_dict =
  critic :: "real list list option"
  episode :: "(string \<times> real) list option"

text \<open>
  The attributes of a \<^verbatim>\<open>DodoEnv\<close> object. \<open>current_ankle_heights\<close>,
  \<open>current_foot_orientations\<close> and \<open>base_euler\<close> are attributes that the first \<open>step\<close>
  creates: \<open>None\<close> is the object without the attribute. \<open>hip_angle_history\<close> holds per row
  the two ten-sample buffers (left, right).
\<close>

record DodoEnv =
  num_envs :: nat
  num_obs :: nat
  num_actions :: nat
  num_commands :: nat
  simulate_action_latency :: bool
  dt :: real
  max_episode_length :: int
  env_cfg :: env_config
  obs_cfg :: obs_config
  reward_cfg :: reward_config
  command_cfg :: command_config
  obs_scales :: "string \<rightharpoonup> real"
  reward_scales :: "(string \<times> real) list"
  base_init_pos :: vec3
  base_init_quat :: quat
  inv_base_init_quat :: quat
  motors_dof_idx :: "nat list"
  hip_aa_indices :: "nat \<times> nat"
  hip_fe_indices :: "nat \<times> nat"
  knee_fe_indices :: "nat \<times> nat"
  hip_angle_history :: "(real list \<times> real list) list"
  history_idx :: nat
  reward_functions :: "(string \<times> reward_fn) list"
  episode_sums :: "(string \<times> real list) list"
  prev_contact :: "(real \<times> real) list"
  base_lin_vel :: "vec3 list"
  base_ang_vel :: "vec3 list"
  projected_gravity :: "vec3 list"
  global_gravity :: "vec3 list"
  obs_buf :: "real list list"
  rew_buf :: "real list"
  reset_buf :: "bool list"
  episode_length_buf :: "int list"
  commands :: "real list list"
  commands_scale :: "real list"
  actions :: "real list list"
  last_actions :: "real list list"
  dof_pos :: "real list list"
  dof_vel :: "real list list"
  last_dof_vel :: "real list list"
  base_pos :: "vec3 list"
  base_quat :: "quat list"
  default_dof_pos :: "real list"
  extras :: extras_dict
  current_ankle_heights :: "(real \<times> real) list option"
  current_foot_orientations :: "(quat \<times> quat) list option"
  base_euler :: "vec3 list option"
  sim_calls :: "sim_call list"

definition CONTACT_HEIGHT :: real where
  "CONTACT_HEIGHT = 5 / 100"

definition SWING_HEIGHT_THRESHOLD :: real where
  "SWING_HEIGHT_THRESHOLD = 10 / 100"


section \<open>Reward terms\<close>

text \<open>
  Every \<^verbatim>\<open>_reward_*\<close> method returns one value per environment row. The methods are written
  here row by row and mapped over the batch. A method that reads an attribute created by
  \<open>step\<close> raises \<^verbatim>\<open>AttributeError\<close> on an object that has not been stepped. The two contact
  terms are written with the float32 rounding of their arithmetic. The other terms are
  written over the reals: torch leaves the rounding of \<^verbatim>\<open>exp\<close> and of the reductions
  \<^verbatim>\<open>sum\<close> and \<^verbatim>\<open>mean\<close> to the kernel, and the statements below evaluate these terms only
  where every operation is exact.
\<close>

definition attr :: "string \<Rightarrow> 'a option \<Rightarrow> error + 'a" where
  "attr name v = (case v of None \<Rightarrow> Inl (AttributeError name) | Some x \<Rightarrow> Inr x)"

definition contact_flags :: "real \<times> real \<Rightarrow> real \<times> real" where
  \<comment> \<open>\<^verbatim>\<open>(h < self.CONTACT_HEIGHT).float()\<close> for one row; for a float32 height the comparison
      with 0.05 and the one with 0.05 cast to float32 agree (\<open>contact_height_f32\<close> below)\<close>
  "contact_flags h = (b2f (fst h < CONTACT_HEIGHT), b2f (snd h < CONTACT_HEIGHT))"

definition reward_tracking_lin_vel :: "DodoEnv \<Rightarrow> error + real list" where
  "reward_tracking_lin_vel st =
     Inr (map2 (\<lambda>c v. exp (- (sum_list (map2 (\<lambda>a b. (a - b)\<^sup>2) (take 2 c) [x3 v, y3 v]))
                          / tracking_sigma (reward_cfg st)))
            (commands st) (base_lin_vel st))"

definition reward_tracking_ang_vel :: "DodoEnv \<Rightarrow> error + real list" where
  "reward_tracking_ang_vel st =
     (case col (num_commands st) 2 (commands st) of
        Inl e \<Rightarrow> Inl e
      | Inr c \<Rightarrow> Inr (map2 (\<lambda>a v. exp (- ((a - z3 v)\<^sup>2) / tracking_sigma (reward_cfg st)))
                        c (base_ang_vel st)))"

definition reward_lin_vel_z :: "DodoEnv \<Rightarrow> error + real list" where
  "reward_lin_vel_z st = Inr (map (\<lambda>v. (z3 v)\<^sup>2) (base_lin_vel st))"

definition reward_action_rate :: "DodoEnv \<Rightarrow> error + real list" where
  "reward_action_rate st =
     Inr (map2 (\<lambda>l a. sum_list (map2 (\<lambda>x y. (x - y)\<^sup>2) l a)) (last_actions st) (actions st))"

definition reward_similar_to_default :: "DodoEnv \<Rightarrow> error + real list" where
  "reward_similar_to_default st =
     Inr (map (\<lambda>p. sum_list (map2 (\<lambda>x d. \<bar>x - d\<bar>) p (default_dof_pos st))) (dof_pos st))"

definition reward_base_height :: "DodoEnv \<Rightarrow> error + real list" where
  "reward_base_height st =
     Inr (map (\<lambda>p. (z3 p - base_height_target (reward_cfg st))\<^sup>2) (base_pos st))"

definition reward_orientation_stability :: "DodoEnv \<Rightarrow> error + real list" where
  "reward_orientation_stability st =
     (case attr ''base_euler'' (base_euler st) of
        Inl e \<Rightarrow> Inl e
      | Inr eul \<Rightarrow>
          Inr (map (\<lambda>e. let pr = \<bar>y3 e * pi / 180\<bar>; rr = \<bar>x3 e * pi / 180\<bar> in pr\<^sup>2 + rr\<^sup>2) eul))"

definition reward_survive :: "DodoEnv \<Rightarrow> error + real list" where
  "reward_survive st = Inr (replicate (num_envs st) 1)"

definition col2 :: "nat \<Rightarrow> nat \<times> nat \<Rightarrow> real list list \<Rightarrow> error + (real \<times> real) list" where
  \<comment> \<open>\<^verbatim>\<open>t[:, [i, j]]\<close>\<close>
  "col2 w ij rows =
     (if fst ij < w \<and> snd ij < w then Inr (map (\<lambda>r. (r ! fst ij, r ! snd ij)) rows)
      else Inl IndexError)"

definition reward_penalize_hip_aa :: "DodoEnv \<Rightarrow> error + real list" where
  "reward_penalize_hip_aa st =
     (case col2 (num_actions st) (hip_aa_indices st) (dof_pos st) of
        Inl e \<Rightarrow> Inl e
      | Inr pos \<Rightarrow> Inr (map (\<lambda>p. \<bar>fst p\<bar> + \<bar>snd p\<bar>) pos))"

definition reward_penalize_hip_fe :: "DodoEnv \<Rightarrow> error + real list" where
  "reward_penalize_hip_fe st =
     (case col2 (num_actions st) (hip_fe_indices st) (dof_pos st) of
        Inl e \<Rightarrow> Inl e
      | Inr pos \<Rightarrow> Inr (map (\<lambda>p. \<bar>fst p\<bar> + \<bar>snd p\<bar>) pos))"

definition reward_penalize_hip_fe_diff :: "DodoEnv \<Rightarrow> error + real list" where
  "reward_penalize_hip_fe_diff st =
     (case col (num_actions st) (fst (hip_fe_indices st)) (dof_pos st) of
        Inl e \<Rightarrow> Inl e
      | Inr l \<Rightarrow>
          (case col (num_actions st) (snd (hip_fe_indices st)) (dof_pos st) of
             Inl e \<Rightarrow> Inl e
           | Inr r \<Rightarrow> Inr (map2 (\<lambda>a b. \<bar>a - b\<bar>) l r)))"

definition reward_penalize_knee_fe_left :: "DodoEnv \<Rightarrow> error + real list" where
  "reward_penalize_knee_fe_left st =
     (case col2 (num_actions st) (knee_fe_indices st) (dof_pos st) of
        Inl e \<Rightarrow> Inl e
      | Inr pos \<Rightarrow> Inr (map (\<lambda>p. let left_knee = fst p in relu (9 / 10 + left_knee)) pos))"

definition reward_penalize_knee_fe_right :: "DodoEnv \<Rightarrow> error + real list" where
  "reward_penalize_knee_fe_right st =
     (case col2 (num_actions st) (knee_fe_indices st) (dof_pos st) of
        Inl e \<Rightarrow> Inl e
      | Inr pos \<Rightarrow> Inr (map (\<lambda>p. let right_shin = snd p in relu (- right_shin + 9 / 10)) pos))"

definition reward_penalize_ankle_height :: "DodoEnv \<Rightarrow> error + real list" where
  "reward_penalize_ankle_height st =
     (case attr ''current_ankle_heights'' (current_ankle_heights st) of
        Inl e \<Rightarrow> Inl e
      | Inr h \<Rightarrow> Inr (map (\<lambda>p. (fst p + snd p) / 2) h))"

definition torch_diff :: "real list \<Rightarrow> real list" where
  \<comment> \<open>\<^verbatim>\<open>torch.diff\<close> along the sample axis: out[j] = in[j+1] - in[j]\<close>
  "torch_diff xs = map2 (\<lambda>a b. b - a) xs (tl xs)"

definition periodicity_row :: "real list \<Rightarrow> real" where
  \<comment> \<open>the periodicity reward of one row, from that row's left hip history\<close>
  "periodicity_row left_hip_history =
     (let hip_changes = torch_diff left_hip_history;
          n = int (length hip_changes) - 1;
          change_consistency =
            fold (\<lambda>i acc. acc + max (sgn (hip_changes ! i) * sgn (hip_changes ! (i + 1))) 0)
                 [0..<nat n] 0
      in change_consistency / of_int n * (5 / 10))"

definition history_sum :: "(real list \<times> real list) list \<Rightarrow> real" where
  \<comment> \<open>\<^verbatim>\<open>torch.sum(self.hip_angle_history)\<close>: over all rows, both sides and all samples\<close>
  "history_sum hist = sum_list (map (\<lambda>h. sum_list (fst h) + sum_list (snd h)) hist)"

definition reward_gait_regularity :: "DodoEnv \<Rightarrow> error + real list" where
  "reward_gait_regularity st =
     (case col (num_actions st) (fst (hip_fe_indices st)) (dof_pos st) of
        Inl e \<Rightarrow> Inl e
      | Inr left_hip \<Rightarrow>
          (case col (num_actions st) (snd (hip_fe_indices st)) (dof_pos st) of
             Inl e \<Rightarrow> Inl e
           | Inr right_hip \<Rightarrow>
               (let phase_reward = map2 (\<lambda>l r. exp (- \<bar>l + r\<bar> / (3 / 10))) left_hip right_hip;
                    periodicity_reward =
                      (if history_sum (hip_angle_history st) \<noteq> 0
                       then map (\<lambda>h. periodicity_row (fst h)) (hip_angle_history st)
                       else replicate (num_envs st) 0)
                in Inr (map2 (+) phase_reward periodicity_reward))))"

definition dot3 :: "vec3 \<Rightarrow> vec3 \<Rightarrow> real" where
  "dot3 u v = x3 u * x3 v + y3 u * y3 v + z3 u * z3 v"

definition reward_foot_orientation :: "genesis \<Rightarrow> DodoEnv \<Rightarrow> error + real list" where
  "reward_foot_orientation G st =
     (case attr ''current_foot_orientations'' (current_foot_orientations st) of
        Inl e \<Rightarrow> Inl e
      | Inr quats \<Rightarrow>
          (let sole_normal_local = (0, 0, - 1);
               world_down = (0, 0, - 1);
               alignment = (\<lambda>foot_quat. dot3 (transform_by_quat G sole_normal_local foot_quat) world_down)
           in Inr (map (\<lambda>q. let a0 = alignment (fst q); a1 = alignment (snd q);
                                mean_orientation_reward = (a0 + a1) / 2;
                                orientation_diff = \<bar>a0 - a1\<bar>;
                                consistency_penalty = - orientation_diff
                            in (5 / 10) * mean_orientation_reward + (5 / 100) * consistency_penalty)
                       quats)))"

definition reward_step_height_consistency :: "DodoEnv \<Rightarrow> error + real list" where
  "reward_step_height_consistency st =
     (case attr ''current_ankle_heights'' (current_ankle_heights st) of
        Inl e \<Rightarrow> Inl e
      | Inr h \<Rightarrow>
          Inr (map (\<lambda>p. let left_height = snd p; right_height = fst p;
                            height_diff = \<bar>left_height - right_height\<bar>
                        in exp (- height_diff / (5 / 100))) h))"

text \<open>
  In \<^verbatim>\<open>_reward_foot_contact_penalty\<close> the subtraction \<^verbatim>\<open>max_swing_h - self.SWING_HEIGHT_THRESHOLD\<close>
  is a float32 operation whose Python operand 0.10 is cast to float32. \<open>one_contact\<close> is 0 or
  1 and \<open>flight\<close> is 1 only where \<open>one_contact\<close> is 0, so the product and the sum are exact.
\<close>

definition foot_contact_penalty_row :: "real \<times> real \<Rightarrow> real" where
  "foot_contact_penalty_row h =
     (let contact = contact_flags h;
          flight = b2f (fst contact + snd contact = 0);
          one_contact = b2f (fst contact + snd contact = 1);
          max_swing_h = max (fst h) (snd h);
          swing_hopping = one_contact * relu (f32 (max_swing_h - f32 SWING_HEIGHT_THRESHOLD))
      in flight + swing_hopping)"

definition reward_foot_contact_penalty :: "DodoEnv \<Rightarrow> error + real list" where
  "reward_foot_contact_penalty st =
     (case attr ''current_ankle_heights'' (current_ankle_heights st) of
        Inl e \<Rightarrow> Inl e
      | Inr h \<Rightarrow> Inr (map foot_contact_penalty_row h))"

definition both_changed_row :: "real \<times> real \<Rightarrow> real \<times> real \<Rightarrow> real" where
  "both_changed_row contact prev =
     (let change = (b2f (fst contact \<noteq> fst prev), b2f (snd contact \<noteq> snd prev))
      in fst change * snd change)"

definition reward_foot_contact_switch :: "DodoEnv \<Rightarrow> error + (real list \<times> DodoEnv)" where
  \<comment> \<open>returns the reward and the object with the contact cache overwritten\<close>
  "reward_foot_contact_switch st =
     (case attr ''current_ankle_heights'' (current_ankle_heights st) of
        Inl e \<Rightarrow> Inl e
      | Inr h \<Rightarrow>
          (let contact = map contact_flags h;
               both_changed = map2 both_changed_row contact (prev_contact st)
           in Inr (both_changed, st\<lparr>prev_contact := contact\<rparr>)))"

definition pure_reward :: "DodoEnv \<Rightarrow> error + real list \<Rightarrow> error + (real list \<times> DodoEnv)" where
  "pure_reward st r = (case r of Inl e \<Rightarrow> Inl e | Inr v \<Rightarrow> Inr (v, st))"

fun call_reward :: "genesis \<Rightarrow> reward_fn \<Rightarrow> DodoEnv \<Rightarrow> error + (real list \<times> DodoEnv)" where
  "call_reward G Tracking_lin_vel st = pure_reward st (reward_tracking_lin_vel st)"
| "call_reward G Tracking_ang_vel st = pure_reward st (reward_tracking_ang_vel st)"
| "call_reward G Lin_vel_z st = pure_reward st (reward_lin_vel_z st)"
| "call_reward G Action_rate st = pure_reward st (reward_action_rate st)"
| "call_reward G Similar_to_default st = pure_reward st (reward_similar_to_default st)"
| "call_reward G Base_height st = pure_reward st (reward_base_height st)"
| "call_reward G Orientation_stability st = pure_reward st (reward_orientation_stability st)"
| "call_reward G Survive st = pure_reward st (reward_survive st)"
| "call_reward G Penalize_hip_aa st = pure_reward st (reward_penalize_hip_aa st)"
| "call_reward G Penalize_hip_fe st = pure_reward st (reward_penalize_hip_fe st)"
| "call_reward G Penalize_hip_fe_diff st = pure_reward st (reward_penalize_hip_fe_diff st)"
| "call_reward G Penalize_knee_fe_left st = pure_reward st (reward_penalize_knee_fe_left st)"
| "call_reward G Penalize_knee_fe_right st = pure_reward st (reward_penalize_knee_fe_right st)"
| "call_reward G Penalize_ankle_height st = pure_reward st (reward_penalize_ankle_height st)"
| "call_reward G Gait_regularity st = pure_reward st (reward_gait_regularity st)"
| "call_reward G Foot_orientation st = pure_reward st (reward_foot_orientation G st)"
| "call_reward G Step_height_consistency st = pure_reward st (reward_step_height_consistency st)"
| "call_reward G Foot_contact_penalty st = pure_reward st (reward_foot_contact_penalty st)"
| "call_reward G Foot_contact_switch st = reward_foot_contact_switch st"

definition reward_methods :: "(string \<times> reward_fn) list" where
  "reward_methods =
     [(''tracking_lin_vel'', Tracking_lin_vel), (''tracking_ang_vel'', Tracking_ang_vel),
      (''lin_vel_z'', Lin_vel_z), (''action_rate'', Action_rate),
      (''similar_to_default'', Similar_to_default), (''base_height'', Base_height),
      (''orientation_stability'', Orientation_stability), (''survive'', Survive),
      (''penalize_hip_aa'', Penalize_hip_aa), (''penalize_hip_fe'', Penalize_hip_fe),
      (''penalize_hip_fe_diff'', Penalize_hip_fe_diff),
      (''penalize_knee_fe_left'', Penalize_knee_fe_left),
      (''penalize_knee_fe_right'', Penalize_knee_fe_right),
      (''penalize_ankle_height'', Penalize_ankle_height),
      (''gait_regularity'', Gait_regularity), (''foot_orientation'', Foot_orientation),
      (''step_height_consistency'', Step_height_consistency),
      (''foot_contact_penalty'', Foot_contact_penalty),
      (''foot_contact_switch'', Foot_contact_switch)]"

definition getattr_reward :: "string \<Rightarrow> error + reward_fn" where
  \<comment> \<open>\<^verbatim>\<open>getattr(self, f"_reward_{name}")\<close>\<close>
  "getattr_reward name =
     (case map_of reward_methods name of
        None \<Rightarrow> Inl (AttributeError (''_reward_'' @ name))
      | Some fn \<Rightarrow> Inr fn)"


section \<open>Construction\<close>

text \<open>
  The loop of \<^verbatim>\<open>__init__\<close> over \<^verbatim>\<open>self.reward_scales.items()\<close>: every configured scale is
  multiplied by \<open>dt\<close> in place (a product of two Python floats), the method of that name is
  looked up, and an episode accumulator is created. The triple is (reward_scales,
  reward_functions, episode_sums). \<^verbatim>\<open>self.dt = 0.01\<close> is the float64 nearest to 1/100. A
  \<^verbatim>\<open>torch.tensor\<close> built from configured numbers holds their float32 values.
\<close>

type_synonym reward_tables =
  "(string \<times> real) list \<times> (string \<times> reward_fn) list \<times> (string \<times> real list) list"

fun prepare_reward_functions ::
  "nat \<Rightarrow> real \<Rightarrow> (string \<times> real) list \<Rightarrow> reward_tables \<Rightarrow> error + reward_tables" where
  "prepare_reward_functions N d [] tabs = Inr tabs"
| "prepare_reward_functions N d ((name, scale) # items) (rs, rf, es) =
     (case getattr_reward name of
        Inl e \<Rightarrow> Inl e
      | Inr fn \<Rightarrow>
          prepare_reward_functions N d items
            (dict_set rs name (f64 (scale * d)), dict_set rf name fn,
             dict_set es name (replicate N 0)))"

definition tensor3 :: "vec3 \<Rightarrow> vec3" where
  \<comment> \<open>\<^verbatim>\<open>torch.tensor\<close> of a configured list of three numbers\<close>
  "tensor3 v = (f32 (x3 v), f32 (y3 v), f32 (z3 v))"

definition tensor4 :: "quat \<Rightarrow> quat" where
  "tensor4 q = (case q of (a, b, c, d) \<Rightarrow> (f32 a, f32 b, f32 c, f32 d))"

definition DodoEnv_init ::
  "genesis \<Rightarrow> nat \<Rightarrow> env_config \<Rightarrow> obs_config \<Rightarrow> reward_config \<Rightarrow> command_config
     \<Rightarrow> error + DodoEnv" where
  "DodoEnv_init G N ecfg ocfg rcfg ccfg =
     (let A = cfg_num_actions ecfg;
          d = f64 (1 / 100);
          names = joint_names ecfg;
          idx = map (dof_start G) names;
          force = (case clip_actions ecfg of None \<Rightarrow> 100 | Some c \<Rightarrow> c)
      in
      case list_index names ''Left_HIP_AA'' of Inl e \<Rightarrow> Inl e | Inr aa_l \<Rightarrow>
      case list_index names ''Right_HIP_AA'' of Inl e \<Rightarrow> Inl e | Inr aa_r \<Rightarrow>
      case list_index names ''Left_THIGH_FE'' of Inl e \<Rightarrow> Inl e | Inr fe_l \<Rightarrow>
      case list_index names ''Right_THIGH_FE'' of Inl e \<Rightarrow> Inl e | Inr fe_r \<Rightarrow>
      case list_index names ''Left_KNEE_FE'' of Inl e \<Rightarrow> Inl e | Inr knee_l \<Rightarrow>
      case list_index names ''Right_SHIN_FE'' of Inl e \<Rightarrow> Inl e | Inr shin_r \<Rightarrow>
      case prepare_reward_functions N d (cfg_reward_scales rcfg) (cfg_reward_scales rcfg, [], []) of
        Inl e \<Rightarrow> Inl e
      | Inr (rs, rf, es) \<Rightarrow>
      case lookup_all (default_joint_angles ecfg) names of Inl e \<Rightarrow> Inl e | Inr default_pos \<Rightarrow>
      Inr \<lparr> num_envs = N,
            num_obs = cfg_num_obs ocfg,
            num_actions = A,
            num_commands = cfg_num_commands ccfg,
            simulate_action_latency =
              (case cfg_simulate_action_latency ecfg of None \<Rightarrow> True | Some b \<Rightarrow> b),
            dt = d,
            max_episode_length = \<lceil>f64 (episode_length_s ecfg / d)\<rceil>,
            env_cfg = ecfg,
            obs_cfg = ocfg,
            reward_cfg = rcfg,
            command_cfg = ccfg,
            obs_scales = cfg_obs_scales ocfg,
            reward_scales =
              dict_set (dict_set rs ''foot_contact_penalty'' (f64 (- 1 * d)))
                       ''foot_contact_switch'' (f64 ((5 / 10) * d)),
            base_init_pos = tensor3 (cfg_base_init_pos ecfg),
            base_init_quat = tensor4 (cfg_base_init_quat ecfg),
            inv_base_init_quat = inv_quat G (tensor4 (cfg_base_init_quat ecfg)),
            motors_dof_idx = idx,
            hip_aa_indices = (aa_l, aa_r),
            hip_fe_indices = (fe_l, fe_r),
            knee_fe_indices = (knee_l, shin_r),
            hip_angle_history = replicate N (replicate 10 0, replicate 10 0),
            history_idx = 0,
            reward_functions =
              dict_set (dict_set rf ''foot_contact_penalty'' Foot_contact_penalty)
                       ''foot_contact_switch'' Foot_contact_switch,
            episode_sums = es,
            prev_contact = replicate N (0, 0),
            base_lin_vel = replicate N (0, 0, 0),
            base_ang_vel = replicate N (0, 0, 0),
            projected_gravity = replicate N (0, 0, 0),
            global_gravity = replicate N (0, 0, - 1),
            obs_buf = replicate N (replicate (cfg_num_obs ocfg) 0),
            rew_buf = replicate N 0,
            reset_buf = replicate N True,
            episode_length_buf = replicate N 0,
            commands = replicate N (replicate (cfg_num_commands ccfg) 0),
            commands_scale =
              map f32 [get_default (cfg_obs_scales ocfg) ''lin_vel'' 1,
                       get_default (cfg_obs_scales ocfg) ''lin_vel'' 1,
                       get_default (cfg_obs_scales ocfg) ''ang_vel'' 1],
            actions = replicate N (replicate A 0),
            last_actions = replicate N (replicate A 0),
            dof_pos = replicate N (replicate A 0),
            dof_vel = replicate N (replicate A 0),
            last_dof_vel = replicate N (replicate A 0),
            base_pos = replicate N (0, 0, 0),
            base_quat = replicate N (0, 0, 0, 0),
            default_dof_pos = map f32 default_pos,
            extras = \<lparr> critic = None, episode = None \<rparr>,
            current_ankle_heights = None,
            current_foot_orientations = None,
            base_euler = None,
            sim_calls =
              [Set_dofs_kp (replicate A (kp ecfg)) idx,
               Set_dofs_kv (replicate A (kd ecfg)) idx,
               Set_dofs_force_range (replicate A (f32 (f32 (- force) * 1)))
                                    (replicate A (f32 (f32 force * 1))) idx] \<rparr>)"

section \<open>Command resampling and reset\<close>

definition resample_commands :: "DodoEnv \<Rightarrow> nat list \<Rightarrow> draws \<Rightarrow> error + DodoEnv" where
  "resample_commands st env_ids R =
     (if \<not> (list_all (\<lambda>i. i < num_envs st) env_ids \<and> 2 < num_commands st) then Inl IndexError
      else
        (let k = length env_ids;
             (r0, r1, r2) = R;
             c0 = set_col 0 (commands st) env_ids
                    (gs_rand_float (fst (lin_vel_x_range (command_cfg st)))
                                   (snd (lin_vel_x_range (command_cfg st))) k r0);
             c1 = set_col 1 c0 env_ids
                    (gs_rand_float (fst (lin_vel_y_range (command_cfg st)))
                                   (snd (lin_vel_y_range (command_cfg st))) k r1);
             c2 = set_col 2 c1 env_ids
                    (gs_rand_float (fst (ang_vel_range (command_cfg st)))
                                   (snd (ang_vel_range (command_cfg st))) k r2)
         in Inr (st\<lparr>commands := c2\<rparr>)))"

definition zero_rows :: "real list list \<Rightarrow> nat list \<Rightarrow> real list list" where
  \<comment> \<open>\<^verbatim>\<open>t[env_ids] = 0\<close>\<close>
  "zero_rows rows env_ids = fold (\<lambda>i t. t[i := map (\<lambda>_. 0) (t ! i)]) env_ids rows"

text \<open>
  The episode log of \<^verbatim>\<open>reset_idx\<close>: per accumulator, the mean over the listed rows divided by
  the episode length, and the listed rows zeroed. The logged number is written over the
  reals (the rounding of \<^verbatim>\<open>torch.mean\<close> is the kernel's).
\<close>

fun log_episode ::
  "real \<Rightarrow> nat list \<Rightarrow> (string \<times> real list) list
     \<Rightarrow> error + ((string \<times> real) list \<times> (string \<times> real list) list)" where
  "log_episode len_s env_ids [] = Inr ([], [])"
| "log_episode len_s env_ids ((name, s) # rest) =
     (if len_s = 0 then Inl ZeroDivisionError
      else
        (case log_episode len_s env_ids rest of
           Inl e \<Rightarrow> Inl e
         | Inr (ep, zeroed) \<Rightarrow>
             Inr ((''rew_'' @ name,
                   (sum_list (gather_rows s env_ids) / real (length env_ids)) / len_s) # ep,
                  (name, fill_rows s env_ids 0) # zeroed)))"

definition reset_idx :: "DodoEnv \<Rightarrow> nat list \<Rightarrow> draws \<Rightarrow> error + DodoEnv" where
  "reset_idx st env_ids R =
     (if length env_ids = 0 then Inr st
      else if \<not> list_all (\<lambda>i. i < num_envs st) env_ids then Inl IndexError
      else
        (let h = (case current_ankle_heights st of
                    Some hs \<Rightarrow> gather_rows hs env_ids
                  | None \<Rightarrow> replicate (length env_ids) (0, 0));
             contact_init = map contact_flags h;
             s1 = st\<lparr>prev_contact := scatter_rows (prev_contact st) env_ids contact_init\<rparr>;
             s2 = s1\<lparr>dof_pos := fill_rows (dof_pos s1) env_ids (default_dof_pos s1),
                     dof_vel := zero_rows (dof_vel s1) env_ids\<rparr>;
             s3 = s2\<lparr>sim_calls := sim_calls s2 @
                       [Set_dofs_position (gather_rows (dof_pos s2) env_ids)
                          (motors_dof_idx s2) True env_ids]\<rparr>;
             s4 = s3\<lparr>base_pos := fill_rows (base_pos s3) env_ids (base_init_pos s3),
                     base_quat := fill_rows (base_quat s3) env_ids (base_init_quat s3)\<rparr>;
             s5 = s4\<lparr>sim_calls := sim_calls s4 @
                       [Set_pos (gather_rows (base_pos s4) env_ids) False env_ids,
                        Set_quat (gather_rows (base_quat s4) env_ids) False env_ids]\<rparr>;
             s6 = s5\<lparr>base_lin_vel := fill_rows (base_lin_vel s5) env_ids (0, 0, 0),
                     base_ang_vel := fill_rows (base_ang_vel s5) env_ids (0, 0, 0),
                     sim_calls := sim_calls s5 @ [Zero_all_dofs_velocity env_ids]\<rparr>;
             s7 = s6\<lparr>last_actions := zero_rows (last_actions s6) env_ids,
                     last_dof_vel := zero_rows (last_dof_vel s6) env_ids,
                     episode_length_buf := fill_rows (episode_length_buf s6) env_ids 0,
                     reset_buf := fill_rows (reset_buf s6) env_ids True\<rparr>
         in
         case log_episode (episode_length_s (env_cfg s7)) env_ids (episode_sums s7) of
           Inl e \<Rightarrow> Inl e
         | Inr (ep, zeroed) \<Rightarrow>
             resample_commands
               (s7\<lparr>extras := (extras s7)\<lparr>episode := Some ep\<rparr>, episode_sums := zeroed\<rparr>)
               env_ids R))"

definition reset :: "DodoEnv \<Rightarrow> draws \<Rightarrow> error + ((real list list \<times> unit option) \<times> DodoEnv)" where
  "reset st R =
     (case reset_idx (st\<lparr>reset_buf := map (\<lambda>_. True) (reset_buf st)\<rparr>) [0..<num_envs st] R of
        Inl e \<Rightarrow> Inl e
      | Inr st' \<Rightarrow> Inr ((obs_buf st', None), st'))"

definition get_observations :: "DodoEnv \<Rightarrow> (real list list \<times> extras_dict) \<times> DodoEnv" where
  "get_observations st =
     (let st' = st\<lparr>extras := (extras st)\<lparr>critic := Some (obs_buf st)\<rparr>\<rparr>
      in ((obs_buf st', extras st'), st'))"

definition get_privileged_observations :: "DodoEnv \<Rightarrow> unit option" where
  "get_privileged_observations st = None"


section \<open>The step\<close>

text \<open>
  \<^verbatim>\<open>step\<close> is one method; it is written here as the sequence of its commented blocks. The
  arguments besides the actions are what the world supplies during the call: the
  simulator's report after the tick, and the random draws of the two resampling calls.
\<close>

definition apply_actions :: "DodoEnv \<Rightarrow> real list list \<Rightarrow> error + DodoEnv" where
  \<comment> \<open>clip, latency, position target, \<^verbatim>\<open>scene.step()\<close>\<close>
  "apply_actions st acts =
     (case clip_actions (env_cfg st) of
        None \<Rightarrow> Inl (KeyError ''clip_actions'')
      | Some c \<Rightarrow>
          (let s1 = st\<lparr>actions := map (map (clip (f32 (- c)) (f32 c))) acts\<rparr>;
               exec_actions = (if simulate_action_latency s1 then last_actions s1 else actions s1);
               target_pos =
                 map (\<lambda>row. map2 (\<lambda>a d. f32 (f32 (a * f32 (action_scale (env_cfg s1))) + d))
                                  row (default_dof_pos s1)) exec_actions
           in Inr (s1\<lparr>sim_calls := sim_calls s1 @
                        [Control_dofs_position target_pos (motors_dof_idx s1), Scene_step]\<rparr>)))"

definition read_back :: "genesis \<Rightarrow> DodoEnv \<Rightarrow> sim_reading \<Rightarrow> DodoEnv" where
  \<comment> \<open>foot links, time and pose updates, velocities in the base frame, joint state\<close>
  "read_back G st rd =
     (let s1 = st\<lparr>current_ankle_heights :=
                     Some (zip (map z3 (right_foot_pos rd)) (map z3 (left_foot_pos rd))),
                   current_foot_orientations :=
                     Some (zip (right_foot_quat rd) (left_foot_quat rd))\<rparr>;
          s2 = s1\<lparr>episode_length_buf := map (\<lambda>n. int32 (n + 1)) (episode_length_buf s1),
                  base_pos := robot_pos rd,
                  base_quat := robot_quat rd\<rparr>;
          base_rel_quat = map (\<lambda>q. transform_quat_by_quat G (inv_base_init_quat s2) q) (base_quat s2);
          s3 = s2\<lparr>base_euler := Some (map (quat_to_xyz G) base_rel_quat)\<rparr>;
          inv_q = map (inv_quat G) (base_quat s3)
      in s3\<lparr>base_lin_vel := map2 (transform_by_quat G) (robot_vel rd) inv_q,
             base_ang_vel := map2 (transform_by_quat G) (robot_ang rd) inv_q,
             projected_gravity := map2 (transform_by_quat G) (global_gravity s3) inv_q,
             dof_pos := dofs_position rd,
             dof_vel := dofs_velocity rd\<rparr>)"

definition update_hip_history :: "DodoEnv \<Rightarrow> error + DodoEnv" where
  "update_hip_history st =
     (case col (num_actions st) (fst (hip_fe_indices st)) (dof_pos st) of
        Inl e \<Rightarrow> Inl e
      | Inr l \<Rightarrow>
          (case col (num_actions st) (snd (hip_fe_indices st)) (dof_pos st) of
             Inl e \<Rightarrow> Inl e
           | Inr r \<Rightarrow>
               (let current_hip_angles = zip l r
                in Inr (st\<lparr>hip_angle_history :=
                             map2 (\<lambda>h c. ((fst h)[history_idx st := fst c],
                                           (snd h)[history_idx st := snd c]))
                                  (hip_angle_history st) current_hip_angles,
                           history_idx := (history_idx st + 1) mod 10\<rparr>))))"

definition resample_due :: "DodoEnv \<Rightarrow> draws \<Rightarrow> error + DodoEnv" where
  "resample_due st R =
     (let period = py_int (f64 (resampling_time_s (env_cfg st) / dt st))
      in if period = 0 then Inl ZeroDivisionError
         else resample_commands st
                (nonzero (map (\<lambda>n. n mod period = 0) (episode_length_buf st))) R)"

definition check_termination :: "DodoEnv \<Rightarrow> error + DodoEnv" where
  "check_termination st =
     (case attr ''base_euler'' (base_euler st) of
        Inl e \<Rightarrow> Inl e
      | Inr eul \<Rightarrow>
          (let done0 = map (\<lambda>n. n > max_episode_length st) (episode_length_buf st);
               done1 = map2 (\<lambda>d e. d \<or> \<bar>y3 e\<bar> > f32 (termination_if_pitch_greater_than (env_cfg st)))
                            done0 eul;
               done2 = map2 (\<lambda>d e. d \<or> \<bar>x3 e\<bar> > f32 (termination_if_roll_greater_than (env_cfg st)))
                            done1 eul
           in Inr (st\<lparr>reset_buf := done2\<rparr>)))"

definition add32 :: "real list \<Rightarrow> real list \<Rightarrow> real list" where
  \<comment> \<open>\<^verbatim>\<open>t += r\<close> on float32 tensors of one shape\<close>
  "add32 t r = map2 (\<lambda>a b. f32 (a + b)) t r"

text \<open>
  The reward loop of \<^verbatim>\<open>step\<close>. \<^verbatim>\<open>fn() * self.reward_scales[name]\<close> multiplies a float32 tensor
  by a Python float, which is cast to float32.
\<close>

fun reward_loop :: "genesis \<Rightarrow> (string \<times> reward_fn) list \<Rightarrow> DodoEnv \<Rightarrow> error + DodoEnv" where
  "reward_loop G [] st = Inr st"
| "reward_loop G ((name, fn) # rest) st =
     (case call_reward G fn st of
        Inl e \<Rightarrow> Inl e
      | Inr (v, s1) \<Rightarrow>
          (case dict_get (reward_scales s1) name of
             Inl e \<Rightarrow> Inl e
           | Inr scale \<Rightarrow>
               (let r = map (\<lambda>x. f32 (x * f32 scale)) v;
                    s2 = s1\<lparr>rew_buf := add32 (rew_buf s1) r\<rparr>
                in case dict_get (episode_sums s2) name of
                     Inl e \<Rightarrow> Inl e
                   | Inr acc \<Rightarrow>
                       reward_loop G rest
                         (s2\<lparr>episode_sums := dict_set (episode_sums s2) name (add32 acc r)\<rparr>))))"

definition compute_reward :: "genesis \<Rightarrow> DodoEnv \<Rightarrow> error + DodoEnv" where
  "compute_reward G st =
     reward_loop G (reward_functions st) (st\<lparr>rew_buf := map (\<lambda>_. 0) (rew_buf st)\<rparr>)"

text \<open>
  One row of the observation: \<^verbatim>\<open>torch.cat\<close> along the last dimension of the six blocks, each
  scale a Python float cast to float32, \<open>commands_scale\<close> a float32 tensor.
\<close>

definition obs_row :: "DodoEnv \<Rightarrow> real \<Rightarrow> real \<Rightarrow> real \<Rightarrow> nat \<Rightarrow> real list" where
  "obs_row st s_ang s_pos s_vel i =
     [f32 (x3 (base_ang_vel st ! i) * f32 s_ang), f32 (y3 (base_ang_vel st ! i) * f32 s_ang),
      f32 (z3 (base_ang_vel st ! i) * f32 s_ang)]
     @ [x3 (projected_gravity st ! i), y3 (projected_gravity st ! i),
        z3 (projected_gravity st ! i)]
     @ map2 (\<lambda>c s. f32 (c * s)) (commands st ! i) (commands_scale st)
     @ map (\<lambda>x. f32 (x * f32 s_pos))
           (map2 (\<lambda>p d. f32 (p - d)) (dof_pos st ! i) (default_dof_pos st))
     @ map (\<lambda>x. f32 (x * f32 s_vel)) (dof_vel st ! i)
     @ actions st ! i"

definition assemble_obs :: "DodoEnv \<Rightarrow> error + DodoEnv" where
  "assemble_obs st =
     (case map_get (obs_scales st) ''ang_vel'' of Inl e \<Rightarrow> Inl e | Inr s_ang \<Rightarrow>
      case map_get (obs_scales st) ''dof_pos'' of Inl e \<Rightarrow> Inl e | Inr s_pos \<Rightarrow>
      case map_get (obs_scales st) ''dof_vel'' of Inl e \<Rightarrow> Inl e | Inr s_vel \<Rightarrow>
      Inr (st\<lparr>obs_buf := map (obs_row st s_ang s_pos s_vel) [0..<num_envs st]\<rparr>))"

definition finish_step :: "DodoEnv \<Rightarrow> DodoEnv" where
  "finish_step st =
     (let s1 = st\<lparr>last_actions := actions st, last_dof_vel := dof_vel st\<rparr>
      in s1\<lparr>extras := (extras s1)\<lparr>critic := Some (obs_buf s1)\<rparr>\<rparr>)"

definition before_reward ::
  "genesis \<Rightarrow> DodoEnv \<Rightarrow> real list list \<Rightarrow> sim_reading \<Rightarrow> draws \<Rightarrow> error + DodoEnv" where
  \<comment> \<open>the part of \<^verbatim>\<open>step\<close> above the comment \<^verbatim>\<open># Reward computation\<close>\<close>
  "before_reward G st acts rd R1 =
     (case apply_actions st acts of Inl e \<Rightarrow> Inl e | Inr s1 \<Rightarrow>
      case update_hip_history (read_back G s1 rd) of Inl e \<Rightarrow> Inl e | Inr s2 \<Rightarrow>
      case resample_due s2 R1 of Inl e \<Rightarrow> Inl e | Inr s3 \<Rightarrow>
      check_termination s3)"

definition step ::
  "genesis \<Rightarrow> DodoEnv \<Rightarrow> real list list \<Rightarrow> sim_reading \<Rightarrow> draws \<Rightarrow> draws
     \<Rightarrow> error + ((real list list \<times> real list \<times> bool list \<times> extras_dict) \<times> DodoEnv)" where
  "step G st acts rd R1 R2 =
     (case before_reward G st acts rd R1 of Inl e \<Rightarrow> Inl e | Inr s4 \<Rightarrow>
      case compute_reward G s4 of Inl e \<Rightarrow> Inl e | Inr s5 \<Rightarrow>
      case assemble_obs s5 of Inl e \<Rightarrow> Inl e | Inr s6 \<Rightarrow>
      case reset_idx (finish_step s6) (nonzero (reset_buf (finish_step s6))) R2 of
        Inl e \<Rightarrow> Inl e
      | Inr s7 \<Rightarrow> Inr ((obs_buf s7, rew_buf s7, reset_buf s7, extras s7), s7))"

section \<open>Shapes and the properties to be proved\<close>

text \<open>
  The shapes that \<^verbatim>\<open>__init__\<close> gives the buffers, and the conditions on the configuration
  under which no statement of \<open>step\<close> raises. \<open>wf_env\<close> holds of every object constructed
  from a configuration with three commands, as many joint names as actions, the keys that
  \<open>step\<close> reads, and the two contact terms among its reward scales.
\<close>

definition rows_ok :: "nat \<Rightarrow> nat \<Rightarrow> real list list \<Rightarrow> bool" where
  "rows_ok n w t \<longleftrightarrow> length t = n \<and> list_all (\<lambda>row. length row = w) t"

definition wf_env :: "DodoEnv \<Rightarrow> bool" where
  "wf_env st \<longleftrightarrow>
     length (episode_length_buf st) = num_envs st \<and>
     length (reset_buf st) = num_envs st \<and>
     length (rew_buf st) = num_envs st \<and>
     length (prev_contact st) = num_envs st \<and>
     length (hip_angle_history st) = num_envs st \<and>
     length (base_pos st) = num_envs st \<and>
     length (base_quat st) = num_envs st \<and>
     length (base_lin_vel st) = num_envs st \<and>
     length (base_ang_vel st) = num_envs st \<and>
     length (projected_gravity st) = num_envs st \<and>
     length (global_gravity st) = num_envs st \<and>
     rows_ok (num_envs st) (num_commands st) (commands st) \<and>
     rows_ok (num_envs st) (num_actions st) (actions st) \<and>
     rows_ok (num_envs st) (num_actions st) (last_actions st) \<and>
     rows_ok (num_envs st) (num_actions st) (dof_pos st) \<and>
     rows_ok (num_envs st) (num_actions st) (dof_vel st) \<and>
     rows_ok (num_envs st) (num_actions st) (last_dof_vel st) \<and>
     length (default_dof_pos st) = num_actions st \<and>
     num_commands st = 3 \<and>
     length (commands_scale st) = 3 \<and>
     fst (hip_aa_indices st) < num_actions st \<and> snd (hip_aa_indices st) < num_actions st \<and>
     fst (hip_fe_indices st) < num_actions st \<and> snd (hip_fe_indices st) < num_actions st \<and>
     fst (knee_fe_indices st) < num_actions st \<and> snd (knee_fe_indices st) < num_actions st \<and>
     clip_actions (env_cfg st) \<noteq> None \<and>
     py_int (f64 (resampling_time_s (env_cfg st) / dt st)) \<noteq> 0 \<and>
     episode_length_s (env_cfg st) \<noteq> 0 \<and>
     obs_scales st ''ang_vel'' \<noteq> None \<and>
     obs_scales st ''dof_pos'' \<noteq> None \<and>
     obs_scales st ''dof_vel'' \<noteq> None \<and>
     distinct (map fst (reward_functions st)) \<and>
     distinct (map snd (reward_functions st)) \<and>
     list_all (\<lambda>nf. fst nf \<in> set (map fst (reward_scales st))) (reward_functions st) \<and>
     list_all (\<lambda>nf. fst nf \<in> set (map fst (episode_sums st))) (reward_functions st) \<and>
     list_all (\<lambda>na. length (snd na) = num_envs st) (episode_sums st)"

definition wf_reading :: "nat \<Rightarrow> nat \<Rightarrow> sim_reading \<Rightarrow> bool" where
  \<comment> \<open>the simulator reports one row per environment\<close>
  "wf_reading n a rd \<longleftrightarrow>
     length (right_foot_pos rd) = n \<and> length (right_foot_quat rd) = n \<and>
     length (left_foot_pos rd) = n \<and> length (left_foot_quat rd) = n \<and>
     length (robot_pos rd) = n \<and> length (robot_quat rd) = n \<and>
     length (robot_vel rd) = n \<and> length (robot_ang rd) = n \<and>
     rows_ok n a (dofs_position rd) \<and> rows_ok n a (dofs_velocity rd)"




text \<open>The command tensor that \<^verbatim>\<open>_resample_commands\<close> leaves behind.\<close>

definition resampled :: "DodoEnv \<Rightarrow> nat list \<Rightarrow> draws \<Rightarrow> real list list" where
  "resampled st env_ids R =
     (case R of (r0, r1, r2) \<Rightarrow>
        set_col 2
          (set_col 1
             (set_col 0 (commands st) env_ids
                (gs_rand_float (fst (lin_vel_x_range (command_cfg st)))
                   (snd (lin_vel_x_range (command_cfg st))) (length env_ids) r0))
             env_ids
             (gs_rand_float (fst (lin_vel_y_range (command_cfg st)))
                (snd (lin_vel_y_range (command_cfg st))) (length env_ids) r1))
          env_ids
          (gs_rand_float (fst (ang_vel_range (command_cfg st)))
             (snd (ang_vel_range (command_cfg st))) (length env_ids) r2))"

text \<open>
  The periodicity component as the specification words it: over the ten samples, the nine
  first differences, the eight products of the signs of neighbouring differences cut off
  below at zero, their sum divided by 8 and scaled by 0.5.
\<close>

definition periodicity_spec :: "real list \<Rightarrow> real" where
  "periodicity_spec h =
     (\<Sum>i<8. max (sgn (h ! (i + 1) - h ! i) * sgn (h ! (i + 2) - h ! (i + 1))) 0) / 8 * (1 / 2)"

text \<open>What a reward method returns when called on a state (the empty list if it raises).\<close>

definition reward_value :: "genesis \<Rightarrow> reward_fn \<Rightarrow> DodoEnv \<Rightarrow> real list" where
  "reward_value G fn st = (case call_reward G fn st of Inl e \<Rightarrow> [] | Inr (v, s) \<Rightarrow> v)"

definition registered_scale :: "DodoEnv \<Rightarrow> string \<Rightarrow> real" where
  "registered_scale st name = (case map_of (reward_scales st) name of None \<Rightarrow> 0 | Some s \<Rightarrow> s)"

text \<open>
  The contribution of one registered term to the reward of every row: the value of its
  method times its registered scale, in float32.
\<close>

definition term_value :: "genesis \<Rightarrow> DodoEnv \<Rightarrow> string \<times> reward_fn \<Rightarrow> real list" where
  "term_value G st nf =
     map (\<lambda>x. f32 (x * f32 (registered_scale st (fst nf)))) (reward_value G (snd nf) st)"

definition accumulate ::
  "genesis \<Rightarrow> DodoEnv \<Rightarrow> (string \<times> real list) list \<Rightarrow> string \<times> reward_fn
     \<Rightarrow> (string \<times> real list) list" where
  \<comment> \<open>the episode accumulators after one term has been added to the accumulator of its name\<close>
  "accumulate G st es nf =
     dict_set es (fst nf) (add32 (the (map_of es (fst nf))) (term_value G st nf))"

text \<open>
  The scale that construction registers for a term, read off \<^verbatim>\<open>__init__\<close>: the configured
  scale times dt for a configured name, except for the two contact terms, whose scales are
  set after the loop to -1.0 * dt and 0.5 * dt whatever the configuration says.
\<close>

definition static_scale :: "reward_config \<Rightarrow> string \<Rightarrow> real" where
  "static_scale rcfg name =
     (if name = ''foot_contact_switch'' then f64 ((5 / 10) * f64 (1 / 100))
      else if name = ''foot_contact_penalty'' then f64 (- 1 * f64 (1 / 100))
      else (case map_of (cfg_reward_scales rcfg) name of
              None \<Rightarrow> 0
            | Some scale \<Rightarrow> f64 (scale * f64 (1 / 100))))"

text \<open>
  The rows that \<open>step\<close> resamples and the rows it marks done, as functions of the object
  before the call and of what the simulator reports; and the conditions under which every
  reward method can be called: \<open>step\<close> has stored the foot data and the Euler angles, and the
  joint and command indices that the methods use exist.
\<close>

definition due_rows :: "DodoEnv \<Rightarrow> nat list" where
  "due_rows st =
     nonzero (map (\<lambda>n. n mod py_int (f64 (resampling_time_s (env_cfg st) / dt st)) = 0)
                  (map (\<lambda>n. int32 (n + 1)) (episode_length_buf st)))"

definition done_flags :: "genesis \<Rightarrow> DodoEnv \<Rightarrow> sim_reading \<Rightarrow> bool list" where
  "done_flags G st rd =
     (let eul = map (quat_to_xyz G)
                  (map (\<lambda>q. transform_quat_by_quat G (inv_base_init_quat st) q) (robot_quat rd));
          done0 = map (\<lambda>n. n > max_episode_length st)
                      (map (\<lambda>n. int32 (n + 1)) (episode_length_buf st));
          done1 = map2 (\<lambda>d e. d \<or> \<bar>y3 e\<bar> > f32 (termination_if_pitch_greater_than (env_cfg st)))
                       done0 eul
      in map2 (\<lambda>d e. d \<or> \<bar>x3 e\<bar> > f32 (termination_if_roll_greater_than (env_cfg st))) done1 eul)"

definition evaluable :: "DodoEnv \<Rightarrow> bool" where
  "evaluable st \<longleftrightarrow>
     base_euler st \<noteq> None \<and> current_ankle_heights st \<noteq> None \<and>
     current_foot_orientations st \<noteq> None \<and> 2 < num_commands st \<and>
     fst (hip_aa_indices st) < num_actions st \<and> snd (hip_aa_indices st) < num_actions st \<and>
     fst (hip_fe_indices st) < num_actions st \<and> snd (hip_fe_indices st) < num_actions st \<and>
     fst (knee_fe_indices st) < num_actions st \<and> snd (knee_fe_indices st) < num_actions st"

definition shaped :: "DodoEnv \<Rightarrow> bool" where
  \<comment> \<open>every per-row quantity that a reward method reads has one entry per environment\<close>
  "shaped st \<longleftrightarrow>
     length (commands st) = num_envs st \<and> length (base_lin_vel st) = num_envs st \<and>
     length (base_ang_vel st) = num_envs st \<and> length (last_actions st) = num_envs st \<and>
     length (actions st) = num_envs st \<and> length (dof_pos st) = num_envs st \<and>
     length (base_pos st) = num_envs st \<and> length (hip_angle_history st) = num_envs st \<and>
     length (prev_contact st) = num_envs st \<and>
     length (the (base_euler st)) = num_envs st \<and>
     length (the (current_ankle_heights st)) = num_envs st \<and>
     length (the (current_foot_orientations st)) = num_envs st"

text \<open>
  The object as the reward methods of a \<open>step\<close> call see it: the part of \<open>step\<close> above the
  reward computation, with its blocks composed. The actions are clipped, the position target
  is sent and the simulator ticks; the foot data, the incremented counters, the base pose,
  the Euler angles, the velocities in the base frame and the joint state are stored; the hip
  angles are written at the history index; the rows that are due get new commands; the rows
  to be terminated are flagged.
\<close>

definition ticked :: "genesis \<Rightarrow> DodoEnv \<Rightarrow> real list list \<Rightarrow> sim_reading \<Rightarrow> draws \<Rightarrow> DodoEnv" where
  "ticked G st acts rd R1 =
     (let c = the (clip_actions (env_cfg st));
          clipped = map (map (clip (f32 (- c)) (f32 c))) acts
      in st\<lparr>actions := clipped,
            sim_calls := sim_calls st @
              [Control_dofs_position
                 (map (\<lambda>row. map2 (\<lambda>a d. f32 (f32 (a * f32 (action_scale (env_cfg st))) + d)) row
                                    (default_dof_pos st))
                      (if simulate_action_latency st then last_actions st else clipped))
                 (motors_dof_idx st),
               Scene_step],
            current_ankle_heights :=
              Some (zip (map z3 (right_foot_pos rd)) (map z3 (left_foot_pos rd))),
            current_foot_orientations := Some (zip (right_foot_quat rd) (left_foot_quat rd)),
            episode_length_buf := map (\<lambda>n. int32 (n + 1)) (episode_length_buf st),
            base_pos := robot_pos rd,
            base_quat := robot_quat rd,
            base_euler :=
              Some (map (quat_to_xyz G)
                      (map (\<lambda>q. transform_quat_by_quat G (inv_base_init_quat st) q)
                           (robot_quat rd))),
            base_lin_vel :=
              map2 (transform_by_quat G) (robot_vel rd) (map (inv_quat G) (robot_quat rd)),
            base_ang_vel :=
              map2 (transform_by_quat G) (robot_ang rd) (map (inv_quat G) (robot_quat rd)),
            projected_gravity :=
              map2 (transform_by_quat G) (global_gravity st) (map (inv_quat G) (robot_quat rd)),
            dof_pos := dofs_position rd,
            dof_vel := dofs_velocity rd,
            hip_angle_history :=
              map2 (\<lambda>h c. ((fst h)[history_idx st := fst c], (snd h)[history_idx st := snd c]))
                   (hip_angle_history st)
                   (zip (map (\<lambda>r. r ! fst (hip_fe_indices st)) (dofs_position rd))
                        (map (\<lambda>r. r ! snd (hip_fe_indices st)) (dofs_position rd))),
            history_idx := (history_idx st + 1) mod 10,
            commands := resampled st (due_rows st) R1,
            reset_buf := done_flags G st rd\<rparr>)"

text \<open>
  The object after the reward loop of \<open>step\<close>, after the observation assembly, and at the
  point where \<open>step\<close> calls \<open>reset_idx\<close>.
\<close>

definition rewarded :: "genesis \<Rightarrow> DodoEnv \<Rightarrow> DodoEnv" where
  "rewarded G st =
     st\<lparr>rew_buf := foldl add32 (map (\<lambda>_. 0) (rew_buf st))
                        (map (term_value G st) (reward_functions st)),
        episode_sums := foldl (accumulate G st) (episode_sums st) (reward_functions st),
        prev_contact :=
          (if Foot_contact_switch \<in> snd ` set (reward_functions st)
           then map contact_flags (the (current_ankle_heights st))
           else prev_contact st)\<rparr>"

definition observed :: "DodoEnv \<Rightarrow> DodoEnv" where
  "observed st =
     st\<lparr>obs_buf := map (obs_row st (the (obs_scales st ''ang_vel''))
                                    (the (obs_scales st ''dof_pos''))
                                    (the (obs_scales st ''dof_vel''))) [0..<num_envs st]\<rparr>"

definition pre_reset ::
  "genesis \<Rightarrow> DodoEnv \<Rightarrow> real list list \<Rightarrow> sim_reading \<Rightarrow> draws \<Rightarrow> DodoEnv" where
  "pre_reset G st acts rd R1 = finish_step (observed (rewarded G (ticked G st acts rd R1)))"

section \<open>A concrete environment\<close>

text \<open>
  Two environments of a six-joint robot, used to instantiate the theorems. The geometry
  helpers are stand-ins: the theorems hold for every choice of them.
\<close>

definition dt64 :: real where
  \<comment> \<open>the float64 nearest to 0.01, the value of \<^verbatim>\<open>self.dt\<close>\<close>
  "dt64 = 5764607523034235 / 2 ^ 59"

definition dt32 :: real where
  \<comment> \<open>the float32 nearest to \<^verbatim>\<open>self.dt\<close>\<close>
  "dt32 = 10737418 / 2 ^ 30"

definition tenth32 :: real where
  \<comment> \<open>the float32 nearest to 0.1\<close>
  "tenth32 = 13421773 / 2 ^ 27"

definition ex_names :: "string list" where
  "ex_names = [''Left_HIP_AA'', ''Right_HIP_AA'', ''Left_THIGH_FE'', ''Right_THIGH_FE'',
               ''Left_KNEE_FE'', ''Right_SHIN_FE'']"

definition ex_G :: genesis where
  "ex_G = \<lparr> quat_to_xyz = (\<lambda>q. (fst (snd q), fst (snd (snd q)), snd (snd (snd q)))),
            transform_by_quat = (\<lambda>v q. v),
            inv_quat = (\<lambda>q. q),
            transform_quat_by_quat = (\<lambda>p q. q),
            dof_start = (\<lambda>name. 6 + length name) \<rparr>"

definition ex_ecfg :: env_config where
  "ex_ecfg = \<lparr> cfg_num_actions = 6, cfg_simulate_action_latency = None, episode_length_s = 20,
               cfg_base_init_pos = (0, 0, 1 / 2), cfg_base_init_quat = (1, 0, 0, 0),
               joint_names = ex_names, kp = 30, kd = 1, clip_actions = Some 100,
               default_joint_angles = map_of (map (\<lambda>n. (n, 1 / 10)) ex_names),
               action_scale = 1 / 4, resampling_time_s = 4,
               termination_if_pitch_greater_than = 30,
               termination_if_roll_greater_than = 30 \<rparr>"

definition ex_ocfg :: obs_config where
  "ex_ocfg = \<lparr> cfg_num_obs = 5,
               cfg_obs_scales = [''ang_vel'' \<mapsto> 1 / 4, ''dof_pos'' \<mapsto> 1, ''dof_vel'' \<mapsto> 1 / 20,
                                 ''lin_vel'' \<mapsto> 2] \<rparr>"

definition ex_rcfg :: reward_config where
  "ex_rcfg = \<lparr> cfg_reward_scales = [(''survive'', 1), (''foot_contact_penalty'', 2),
                                     (''foot_contact_switch'', 3)],
               tracking_sigma = 1 / 4, base_height_target = 1 / 2 \<rparr>"

definition ex_ccfg :: command_config where
  "ex_ccfg = \<lparr> cfg_num_commands = 3, lin_vel_x_range = (0, 1), lin_vel_y_range = (0, 0),
               ang_vel_range = (- 1, 1) \<rparr>"

definition ex_env :: DodoEnv where
  "ex_env =
     \<lparr> num_envs = 2, num_obs = 5, num_actions = 6, num_commands = 3,
       simulate_action_latency = True, dt = dt64, max_episode_length = 2000,
       env_cfg = ex_ecfg, obs_cfg = ex_ocfg, reward_cfg = ex_rcfg, command_cfg = ex_ccfg,
       obs_scales = cfg_obs_scales ex_ocfg,
       reward_scales = [(''survive'', dt64), (''foot_contact_penalty'', - dt64),
                        (''foot_contact_switch'', dt64 / 2)],
       base_init_pos = (0, 0, 1 / 2), base_init_quat = (1, 0, 0, 0),
       inv_base_init_quat = (1, 0, 0, 0),
       motors_dof_idx = [17, 18, 19, 20, 18, 19],
       hip_aa_indices = (0, 1), hip_fe_indices = (2, 3), knee_fe_indices = (4, 5),
       hip_angle_history = [(replicate 10 0, replicate 10 0), (replicate 10 0, replicate 10 0)],
       history_idx = 0,
       reward_functions = [(''survive'', Survive), (''foot_contact_penalty'', Foot_contact_penalty),
                           (''foot_contact_switch'', Foot_contact_switch)],
       episode_sums = [(''survive'', [0, 0]), (''foot_contact_penalty'', [0, 0]),
                       (''foot_contact_switch'', [0, 0])],
       prev_contact = [(0, 0), (0, 0)],
       base_lin_vel = [(0, 0, 0), (0, 0, 0)],
       base_ang_vel = [(0, 0, 0), (0, 0, 0)],
       projected_gravity = [(0, 0, 0), (0, 0, 0)],
       global_gravity = [(0, 0, - 1), (0, 0, - 1)],
       obs_buf = [[0, 0, 0, 0, 0], [0, 0, 0, 0, 0]],
       rew_buf = [0, 0], reset_buf = [True, True], episode_length_buf = [0, 0],
       commands = [[0, 0, 0], [0, 0, 0]], commands_scale = [2, 2, 1 / 4],
       actions = [replicate 6 0, replicate 6 0],
       last_actions = [replicate 6 0, replicate 6 0],
       dof_pos = [replicate 6 0, replicate 6 0],
       dof_vel = [replicate 6 0, replicate 6 0],
       last_dof_vel = [replicate 6 0, replicate 6 0],
       base_pos = [(0, 0, 0), (0, 0, 0)],
       base_quat = [(0, 0, 0, 0), (0, 0, 0, 0)],
       default_dof_pos = replicate 6 tenth32,
       extras = \<lparr> critic = None, episode = None \<rparr>,
       current_ankle_heights = None, current_foot_orientations = None, base_euler = None,
       sim_calls = [Set_dofs_kp (replicate 6 30) [17, 18, 19, 20, 18, 19],
                    Set_dofs_kv (replicate 6 1) [17, 18, 19, 20, 18, 19],
                    Set_dofs_force_range (replicate 6 (- 100)) (replicate 6 100)
                      [17, 18, 19, 20, 18, 19]] \<rparr>"

definition ex_rd :: sim_reading where
  \<comment> \<open>row 0 pitched by 40 degrees with one foot down and the other at 0.15625; row 1 level,
      in flight\<close>
  "ex_rd = \<lparr> right_foot_pos = [(0, 0, 1 / 128), (0, 0, 1 / 4)],
             right_foot_quat = [(1, 0, 0, 0), (1, 0, 0, 0)],
             left_foot_pos = [(0, 0, 5 / 32), (0, 0, 3 / 8)],
             left_foot_quat = [(1, 0, 0, 0), (1, 0, 0, 0)],
             robot_pos = [(0, 0, 1 / 2), (0, 0, 1 / 2)],
             robot_quat = [(1, 0, 40, 0), (1, 0, 0, 0)],
             robot_vel = [(0, 0, 0), (0, 0, 0)],
             robot_ang = [(0, 0, 0), (0, 0, 0)],
             dofs_position = [[0, 0, 3 / 4, - 3 / 4, 0, 0], replicate 6 0],
             dofs_velocity = [replicate 6 0, replicate 6 0] \<rparr>"

definition ex_draws :: draws where
  "ex_draws = ((\<lambda>n. 1 / 2), (\<lambda>n. 1 / 4), (\<lambda>n. 3 / 4))"

definition ex_actions :: "real list list" where
  "ex_actions = [[1, 2, 3, 4, 5, 200], replicate 6 0]"

definition ex_stepped :: DodoEnv where
  \<comment> \<open>the object after three ticks of a mirrored gait in row 0: the left and right hip
      samples cancel, so the sum over the history buffer is zero\<close>
  "ex_stepped =
     ex_env\<lparr> current_ankle_heights := Some [(1 / 100, 15 / 100), (2 / 10, 3 / 10)],
             dof_pos := [[0, 0, 3 / 4, - 3 / 4, 0, 0], replicate 6 0],
             hip_angle_history :=
               [([1 / 4, 1 / 2, 3 / 4, 0, 0, 0, 0, 0, 0, 0],
                 [- 1 / 4, - 1 / 2, - 3 / 4, 0, 0, 0, 0, 0, 0, 0]),
                (replicate 10 0, replicate 10 0)],
             history_idx := 3,
             episode_length_buf := [3, 3] \<rparr>"

definition ex_swing :: DodoEnv where
  \<comment> \<open>row 0 in single support, right foot at the float32 nearest to 0.01 and left foot at the
      float32 nearest to 0.15; row 1 in single support with the raised foot at 0.0625\<close>
  "ex_swing =
     ex_env\<lparr> current_ankle_heights :=
               Some [(10737418 / 2 ^ 30, 10066330 / 2 ^ 26), (0, 1 / 16)] \<rparr>"



definition ex_edge :: DodoEnv where
  \<comment> \<open>the example with the pitch threshold 0.1, as a float64 number\<close>
  "ex_edge =
     ex_env\<lparr> env_cfg :=
               ex_ecfg\<lparr> termination_if_pitch_greater_than := 3602879701896397 / 2 ^ 55 \<rparr> \<rparr>"

definition ex_rd_edge :: sim_reading where
  \<comment> \<open>row 0 pitched by the float32 nearest to 0.1\<close>
  "ex_rd_edge = ex_rd\<lparr> robot_quat := [(1, 0, 13421773 / 2 ^ 27, 0), (1, 0, 0, 0)] \<rparr>"

section \<open>Evaluating the rounding\<close>

lemma pow2_pos [simp]: "0 < pow2 e"
  by (simp add: pow2_def)

lemma pow2_powr: "pow2 e = 2 powr (of_int e)"
  by (simp add: pow2_def powr_real_of_int field_simps)

text \<open>With the binade of \<open>x\<close> known, the rounding is a computation on rationals.\<close>

lemma float_round_eval:
  assumes "pow2 k \<le> \<bar>x\<bar>" and "\<bar>x\<bar> < pow2 (k + 1)"
  shows "float_round p emin x =
           of_int (rne (x / pow2 (max (k - int p + 1) emin))) * pow2 (max (k - int p + 1) emin)"
proof -
  have pos: "0 < \<bar>x\<bar>" using assms(1) pow2_pos [of k] by linarith
  have "\<lfloor>log 2 \<bar>x\<bar>\<rfloor> = k"
    using assms pos by (simp add: floor_log_eq_powr_iff pow2_powr)
  with pos show ?thesis
    by (simp add: float_round_def Let_def)
qed

lemma float_round_0 [simp]: "float_round p emin 0 = 0"
  by (simp add: float_round_def)

lemma f32_0 [simp]: "f32 0 = 0"
  by (simp add: f32_def)

lemma f64_0 [simp]: "f64 0 = 0"
  by (simp add: f64_def)

lemma rne_nonneg: "0 \<le> x \<Longrightarrow> 0 \<le> rne x"
  by (auto simp: rne_def Let_def)

lemma rne_nonpos: "x \<le> 0 \<Longrightarrow> rne x \<le> 0"
proof -
  assume x: "x \<le> 0"
  show ?thesis
  proof (cases "x = 0")
    case True
    then show ?thesis by (simp add: rne_def)
  next
    case False
    with x have "\<lfloor>x\<rfloor> \<le> - 1" by (simp add: floor_le_iff)
    moreover have "\<lfloor>x\<rfloor> = - 1 \<Longrightarrow> \<not> even \<lfloor>x\<rfloor>" by simp
    ultimately show ?thesis
      by (auto simp: rne_def Let_def)
  qed
qed

lemma float_round_nonneg:
  assumes "0 \<le> x"
  shows "0 \<le> float_round p emin x"
proof (cases "x = 0")
  case True
  then show ?thesis by (simp add: float_round_def)
next
  case False
  define e where "e = max (\<lfloor>log 2 \<bar>x\<bar>\<rfloor> - int p + 1) emin"
  have "0 \<le> x / pow2 e"
    using assms pow2_pos [of e] by (intro divide_nonneg_pos)
  then have "0 \<le> rne (x / pow2 e)" by (rule rne_nonneg)
  then have "0 \<le> of_int (rne (x / pow2 e)) * pow2 e"
    using pow2_pos [of e] by (intro mult_nonneg_nonneg) (simp_all add: less_imp_le)
  with False show ?thesis by (simp add: float_round_def Let_def e_def)
qed

lemma float_round_nonpos:
  assumes "x \<le> 0"
  shows "float_round p emin x \<le> 0"
proof (cases "x = 0")
  case True
  then show ?thesis by (simp add: float_round_def)
next
  case False
  define e where "e = max (\<lfloor>log 2 \<bar>x\<bar>\<rfloor> - int p + 1) emin"
  have "x / pow2 e \<le> 0"
    using assms pow2_pos [of e] by (intro divide_nonpos_pos)
  then have "rne (x / pow2 e) \<le> 0" by (rule rne_nonpos)
  then have "of_int (rne (x / pow2 e)) * pow2 e \<le> 0"
    using pow2_pos [of e] by (intro mult_nonpos_nonneg) (simp_all add: less_imp_le)
  with False show ?thesis by (simp add: float_round_def Let_def e_def)
qed

lemma f32_nonneg: "0 \<le> x \<Longrightarrow> 0 \<le> f32 x"
  by (simp add: f32_def float_round_nonneg)

lemma f32_nonpos: "x \<le> 0 \<Longrightarrow> f32 x \<le> 0"
  by (simp add: f32_def float_round_nonpos)

text \<open>The constants of the source and of the example, rounded.\<close>

lemma f64_hundredth: "f64 (1 / 100) = dt64"
  unfolding f64_def dt64_def
  by (subst float_round_eval [of "- 7"]) (simp_all add: pow2_def rne_def)

lemma f64_dt64: "f64 dt64 = dt64"
  unfolding f64_def dt64_def
  by (subst float_round_eval [of "- 7"]) (simp_all add: pow2_def rne_def)

lemma f64_neg_dt64: "f64 (- dt64) = - dt64"
  unfolding f64_def dt64_def
  by (subst float_round_eval [of "- 7"]) (simp_all add: pow2_def rne_def)

lemma f64_half_dt64: "f64 (dt64 / 2) = dt64 / 2"
  unfolding f64_def dt64_def
  by (subst float_round_eval [of "- 8"]) (simp_all add: pow2_def rne_def)

lemma f64_20_dt64: "f64 (20 / dt64) = 2000"
  unfolding f64_def dt64_def
  by (subst float_round_eval [of 10]) (simp_all add: pow2_def rne_def)

lemma f64_4_dt64: "f64 (4 / dt64) = 400"
  unfolding f64_def dt64_def
  by (subst float_round_eval [of 8]) (simp_all add: pow2_def rne_def)

lemma dt64_pos: "0 < dt64"
  by (simp add: dt64_def)

lemma f32_tenth: "f32 (1 / 10) = tenth32"
  unfolding f32_def tenth32_def
  by (subst float_round_eval [of "- 4"]) (simp_all add: pow2_def rne_def)

lemma f64_1 [simp]: "f64 1 = 1"
  unfolding f64_def
  by (subst float_round_eval [of 0]) (simp_all add: pow2_def rne_def)

lemma f32_1 [simp]: "f32 1 = 1"
  unfolding f32_def
  by (subst float_round_eval [of 0]) (simp_all add: pow2_def rne_def)

lemma f32_2 [simp]: "f32 2 = 2"
  unfolding f32_def
  by (subst float_round_eval [of 1]) (simp_all add: pow2_def rne_def)

lemma f32_half [simp]: "f32 (1 / 2) = 1 / 2"
  unfolding f32_def
  by (subst float_round_eval [of "- 1"]) (simp_all add: pow2_def rne_def)

lemma f32_quarter [simp]: "f32 (1 / 4) = 1 / 4"
  unfolding f32_def
  by (subst float_round_eval [of "- 2"]) (simp_all add: pow2_def rne_def)

lemma f32_100 [simp]: "f32 100 = 100"
  unfolding f32_def
  by (subst float_round_eval [of 6]) (simp_all add: pow2_def rne_def)

lemma f32_minus_100 [simp]: "f32 (- 100) = - 100"
  unfolding f32_def
  by (subst float_round_eval [of 6]) (simp_all add: pow2_def rne_def)

lemma f32_30 [simp]: "f32 30 = 30"
  unfolding f32_def
  by (subst float_round_eval [of 4]) (simp_all add: pow2_def rne_def)


section \<open>Lemmas about the tensor helpers\<close>

lemma length_fill_rows [simp]: "length (fill_rows rows ids v) = length rows"
  unfolding fill_rows_def by (induction ids arbitrary: rows) auto

lemma nth_fill_rows:
  "i < length rows \<Longrightarrow> fill_rows rows ids v ! i = (if i \<in> set ids then v else rows ! i)"
  unfolding fill_rows_def
  by (induction ids arbitrary: rows) (auto simp: nth_list_update)

lemma length_zero_rows [simp]: "length (zero_rows rows ids) = length rows"
  unfolding zero_rows_def by (induction ids arbitrary: rows) auto

lemma length_nth_update_replicate:
  "length (rows[a := replicate (length (rows ! a)) x] ! i) = length (rows ! i)"
  by (cases "a = i"; cases "a < length rows") (simp_all add: list_update_beyond)

lemma nth_zero_rows:
  "i < length rows \<Longrightarrow>
   zero_rows rows ids ! i = (if i \<in> set ids then map (\<lambda>_. 0) (rows ! i) else rows ! i)"
  unfolding zero_rows_def
  by (induction ids arbitrary: rows)
     (auto simp: nth_list_update map_replicate_const length_nth_update_replicate)

lemma length_scatter_rows [simp]: "length (scatter_rows rows ids vs) = length rows"
  unfolding scatter_rows_def
  by (induction ids arbitrary: rows vs) (auto simp: zip_Cons1 split: list.splits)




lemma set_col_Nil [simp]: "set_col c rows [] vs = rows"
  by (simp add: set_col_def)

lemma set_col_Cons:
  "set_col c rows (i # ids) (v # vs) = set_col c (rows[i := (rows ! i)[c := v]]) ids vs"
  by (simp add: set_col_def)

lemma length_set_col [simp]: "length (set_col c rows ids vs) = length rows"
  unfolding set_col_def
  by (induction ids arbitrary: rows vs) (auto simp: zip_Cons1 split: list.splits)


lemma length_nth_set_col [simp]:
  "length (set_col c rows ids vs ! j) = length (rows ! j)"
proof (induction ids arbitrary: rows vs)
  case Nil
  then show ?case by simp
next
  case (Cons i ids)
  show ?case
  proof (cases vs)
    case Nil
    then show ?thesis by (simp add: set_col_def)
  next
    case (Cons v vs')
    show ?thesis
      unfolding Cons set_col_Cons Cons.IH
      by (cases "j = i"; cases "i < length rows") (auto simp: nth_list_update list_update_beyond)
  qed
qed




lemma nonzero_set: "set (nonzero bs) = {i. i < length bs \<and> bs ! i}"
  by (auto simp: nonzero_def)

lemma nonzero_bound: "list_all (\<lambda>i. i < length bs) (nonzero bs)"
  by (simp add: nonzero_def list_all_iff)

lemma fill_rows_nonzero: "fill_rows bs (nonzero bs) True = bs"
  by (rule nth_equalityI) (auto simp: nth_fill_rows nonzero_set)

section \<open>The concrete environment is what construction yields\<close>

lemma ex_env_init: "DodoEnv_init ex_G 2 ex_ecfg ex_ocfg ex_rcfg ex_ccfg = Inr ex_env"
  by (simp add: DodoEnv_init_def ex_G_def ex_ecfg_def ex_ocfg_def ex_rcfg_def ex_ccfg_def ex_env_def
      ex_names_def getattr_reward_def reward_methods_def get_default_def Let_def numeral_eq_Suc
      tensor3_def tensor4_def f64_hundredth f64_dt64 f64_neg_dt64 f64_half_dt64 f64_20_dt64
      f32_tenth)

lemma ex_env_wf: "wf_env ex_env"
  by (simp add: wf_env_def ex_env_def rows_ok_def ex_ecfg_def ex_ocfg_def py_int_def f64_4_dt64)

section \<open>The contact reward terms\<close>

text \<open>
  The contact threshold 0.05 is cast to float32 where it is compared with the foot heights.
  For a height that is a float32 number the cast does not change the outcome of the
  comparison, so \<open>contact_flags\<close> compares with 5/100.
\<close>

lemma f32_twentieth: "f32 (5 / 100) = 13421773 / 2 ^ 28"
  unfolding f32_def
  by (subst float_round_eval [of "- 5"]) (simp_all add: pow2_def rne_def)

lemma contact_height_f32:
  assumes "f32 h = h"
  shows "h < f32 (5 / 100) \<longleftrightarrow> h < 5 / 100"
proof
  assume "h < 5 / 100"
  then show "h < f32 (5 / 100)" unfolding f32_twentieth by simp
next
  assume a: "h < f32 (5 / 100)"
  show "h < 5 / 100"
  proof (rule ccontr)
    assume "\<not> h < 5 / 100"
    with a [unfolded f32_twentieth] have lo: "5 / 100 \<le> h" and hi: "h < 13421773 / 2 ^ 28"
      by simp_all
    have "float_round 24 (- 149) h =
            of_int (rne (h / pow2 (max (- 5 - int 24 + 1) (- 149)))) * pow2 (max (- 5 - int 24 + 1) (- 149))"
      using lo hi by (intro float_round_eval) (simp_all add: pow2_def)
    with assms have "h = of_int (rne (h * 2 ^ 28)) / 2 ^ 28"
      by (simp add: f32_def pow2_def)
    then obtain n :: int where n: "h = of_int n / 2 ^ 28" ..
    from lo n have "13421772 < n" by (simp add: field_simps)
    moreover from hi n have "n < 13421773" by (simp add: field_simps)
    ultimately show False by simp
  qed
qed

lemma f32_swing_example: "f32 (10066330 / 2 ^ 26 - tenth32) = 6710887 / 2 ^ 27"
  unfolding f32_def tenth32_def
  by (subst float_round_eval [of "- 5"]) (simp_all add: pow2_def rne_def)

lemma foot_contact_penalty_row_cases:
  "foot_contact_penalty_row (a, b) =
     (if a < 5 / 100 \<and> b < 5 / 100 then 0
      else if 5 / 100 \<le> a \<and> 5 / 100 \<le> b then 1
      else max (f32 (max a b - f32 (10 / 100))) 0)"
  by (simp add: foot_contact_penalty_row_def contact_flags_def b2f_def CONTACT_HEIGHT_def
      SWING_HEIGHT_THRESHOLD_def relu_def Let_def)

lemma single_support_value:
  "a < 5 / 100 \<Longrightarrow> 5 / 100 \<le> b \<Longrightarrow>
   foot_contact_penalty_row (a, b) = max (f32 (b - tenth32)) 0"
  by (simp add: foot_contact_penalty_row_cases f32_tenth max_def)

text \<open>
  Claim C6, as amended. For every environment row, \<^verbatim>\<open>_reward_foot_contact_penalty\<close> returns 1
  when neither foot is in contact (both foot heights at least CONTACT_HEIGHT = 0.05), 0 when
  both feet are in contact, and when exactly one foot is in contact the float32 difference
  of the larger foot height and the float32 value of 0.10, which is 13421773 / 2^27 =
  0.100000001490116..., cut off below at 0: the term is 0 when the larger height is at most
  that value, and the rounded difference itself when the larger height is at least that
  value. The method does not raise once \<open>step\<close> has stored the foot heights.
\<close>

theorem foot_contact_penalty_value:
  assumes "current_ankle_heights st = Some hs" and "i < length hs"
  shows "\<exists>v. reward_foot_contact_penalty st = Inr v \<and> length v = length hs \<and>
           f32 (10 / 100) = 13421773 / 2 ^ 27 \<and>
           (5 / 100 \<le> fst (hs ! i) \<and> 5 / 100 \<le> snd (hs ! i) \<longrightarrow> v ! i = 1) \<and>
           ((fst (hs ! i) < 5 / 100) \<noteq> (snd (hs ! i) < 5 / 100) \<longrightarrow>
              v ! i = max (f32 (max (fst (hs ! i)) (snd (hs ! i)) - f32 (10 / 100))) 0 \<and>
              (max (fst (hs ! i)) (snd (hs ! i)) \<le> f32 (10 / 100) \<longrightarrow> v ! i = 0) \<and>
              (f32 (10 / 100) \<le> max (fst (hs ! i)) (snd (hs ! i)) \<longrightarrow>
                 v ! i = f32 (max (fst (hs ! i)) (snd (hs ! i)) - f32 (10 / 100)))) \<and>
           (fst (hs ! i) < 5 / 100 \<and> snd (hs ! i) < 5 / 100 \<longrightarrow> v ! i = 0)"
proof -
  have eq: "reward_foot_contact_penalty st = Inr (map foot_contact_penalty_row hs)"
    using assms(1) by (simp add: reward_foot_contact_penalty_def attr_def)
  obtain a b where h: "hs ! i = (a, b)" by (cases "hs ! i")
  define t where "t = f32 (10 / 100)"
  define d where "d = f32 (max a b - t)"
  have row: "map foot_contact_penalty_row hs ! i = foot_contact_penalty_row (a, b)"
    using assms(2) h by simp
  have thr: "f32 (10 / 100) = 13421773 / 2 ^ 27"
    using f32_tenth by (simp add: tenth32_def)
  have flight: "5 / 100 \<le> a \<Longrightarrow> 5 / 100 \<le> b \<Longrightarrow> foot_contact_penalty_row (a, b) = 1"
    by (simp add: foot_contact_penalty_row_cases)
  have single: "foot_contact_penalty_row (a, b) = max d 0" if "(a < 5 / 100) \<noteq> (b < 5 / 100)"
    using that unfolding d_def t_def by (auto simp: foot_contact_penalty_row_cases)
  have clipped: "max d 0 = 0" if "max a b \<le> t"
  proof -
    from that have "max a b - t \<le> 0" by simp
    then have "d \<le> 0" unfolding d_def by (rule f32_nonpos)
    then show ?thesis by simp
  qed
  have above: "max d 0 = d" if "t \<le> max a b"
  proof -
    from that have "0 \<le> max a b - t" by simp
    then have "0 \<le> d" unfolding d_def by (rule f32_nonneg)
    then show ?thesis by simp
  qed
  have double: "a < 5 / 100 \<Longrightarrow> b < 5 / 100 \<Longrightarrow> foot_contact_penalty_row (a, b) = 0"
    by (simp add: foot_contact_penalty_row_cases)
  show ?thesis
    unfolding eq h row fst_conv snd_conv
    using thr flight single clipped above double
    unfolding d_def t_def by (intro exI [of _ "map foot_contact_penalty_row hs"]) (simp add: row)
qed


theorem foot_contact_penalty_value_witness:
  "current_ankle_heights ex_swing = Some [(10737418 / 2 ^ 30, 10066330 / 2 ^ 26), (0, 1 / 16)] \<and>
   (1::nat) < length [(10737418 / 2 ^ 30, 10066330 / 2 ^ 26 :: real), (0, 1 / 16)] \<and>
   (\<exists>v. reward_foot_contact_penalty ex_swing = Inr v \<and> v ! 1 = 0)"
proof -
  have h: "current_ankle_heights ex_swing = Some [(10737418 / 2 ^ 30, 10066330 / 2 ^ 26), (0, 1 / 16)]"
    by (simp add: ex_swing_def)
  have l: "(1::nat) < length [(10737418 / 2 ^ 30, 10066330 / 2 ^ 26 :: real), (0, 1 / 16)]"
    by simp
  from foot_contact_penalty_value [OF h l]
  have "\<exists>v. reward_foot_contact_penalty ex_swing = Inr v \<and> v ! 1 = 0"
    by auto
  with h l show ?thesis by blast
qed

text \<open>
  Claim C6 as stated fails in its last part: with one foot below CONTACT_HEIGHT and the swing
  foot at 0.10 + d the term is not exactly d. In row 0 of the example the right foot is at
  the float32 nearest to 0.01 and the left foot at the float32 nearest to 0.15, that is
  at 0.10 + d for d = 10066330 / 2^26 - 0.10; the term is 6710887 / 2^27 =
  0.0500000044703..., the distance from the float32 value of 0.10, and differs from d.
\<close>

theorem foot_contact_penalty_not_delta:
  "reward_foot_contact_penalty ex_swing = Inr [6710887 / 2 ^ 27, 0] \<and>
   current_ankle_heights ex_swing = Some [(10737418 / 2 ^ 30, 10066330 / 2 ^ 26), (0, 1 / 16)] \<and>
   (10737418 / 2 ^ 30 :: real) < 5 / 100 \<and>
   (10066330 / 2 ^ 26 :: real) = 10 / 100 + (10066330 / 2 ^ 26 - 10 / 100) \<and>
   (6710887 / 2 ^ 27 :: real) \<noteq> 10066330 / 2 ^ 26 - 10 / 100"
proof -
  have "foot_contact_penalty_row (10737418 / 2 ^ 30, 10066330 / 2 ^ 26) =
          max (f32 (10066330 / 2 ^ 26 - tenth32)) 0"
    by (rule single_support_value) simp_all
  then have r0: "foot_contact_penalty_row (10737418 / 2 ^ 30, 10066330 / 2 ^ 26) = 6710887 / 2 ^ 27"
    unfolding f32_swing_example by simp
  have "f32 (1 / 16 - tenth32) \<le> 0"
    by (rule f32_nonpos) (simp add: tenth32_def)
  moreover have "foot_contact_penalty_row (0, 1 / 16) = max (f32 (1 / 16 - tenth32)) 0"
    by (rule single_support_value) simp_all
  ultimately have r1: "foot_contact_penalty_row (0, 1 / 16) = 0"
    by simp
  have "reward_foot_contact_penalty ex_swing =
          Inr [foot_contact_penalty_row (10737418 / 2 ^ 30, 10066330 / 2 ^ 26),
               foot_contact_penalty_row (0, 1 / 16)]"
    by (simp add: reward_foot_contact_penalty_def attr_def ex_swing_def)
  then show ?thesis
    unfolding r0 r1 by (simp add: ex_swing_def)
qed


text \<open>
  Claim C5. For every environment row, \<^verbatim>\<open>_reward_foot_contact_switch\<close> returns 1 exactly when
  both contact flags (height below CONTACT_HEIGHT = 0.05) differ from the cached flags of the
  previous evaluation, and 0 otherwise; the transition (0,0) to (1,1) gives 1 and (0,0) to
  (1,0) gives 0; the evaluation overwrites the cache with the current flags and changes
  nothing else.
\<close>

theorem foot_contact_switch_value:
  assumes "current_ankle_heights st = Some hs"
    and "length (prev_contact st) = length hs"
    and "i < length hs"
  shows "\<exists>v. reward_foot_contact_switch st = Inr (v, st\<lparr>prev_contact := map contact_flags hs\<rparr>) \<and>
           length v = length hs \<and>
           contact_flags (hs ! i) = (b2f (fst (hs ! i) < 5 / 100), b2f (snd (hs ! i) < 5 / 100)) \<and>
           v ! i = (if fst (contact_flags (hs ! i)) \<noteq> fst (prev_contact st ! i) \<and>
                       snd (contact_flags (hs ! i)) \<noteq> snd (prev_contact st ! i)
                    then 1 else 0) \<and>
           (prev_contact st ! i = (0, 0) \<and> contact_flags (hs ! i) = (1, 1) \<longrightarrow> v ! i = 1) \<and>
           (prev_contact st ! i = (0, 0) \<and> contact_flags (hs ! i) = (1, 0) \<longrightarrow> v ! i = 0)"
proof -
  define v where "v = map2 both_changed_row (map contact_flags hs) (prev_contact st)"
  have eq: "reward_foot_contact_switch st = Inr (v, st\<lparr>prev_contact := map contact_flags hs\<rparr>)"
    using assms(1) by (simp add: reward_foot_contact_switch_def attr_def Let_def v_def)
  have len: "length v = length hs"
    using assms(2) by (simp add: v_def)
  have "v ! i = both_changed_row (contact_flags (hs ! i)) (prev_contact st ! i)"
    using assms(2,3) by (simp add: v_def)
  then have row: "v ! i = (if fst (contact_flags (hs ! i)) \<noteq> fst (prev_contact st ! i) \<and>
                            snd (contact_flags (hs ! i)) \<noteq> snd (prev_contact st ! i)
                         then 1 else 0)"
    by (simp add: both_changed_row_def b2f_def)
  have flags: "contact_flags (hs ! i) = (b2f (fst (hs ! i) < 5 / 100), b2f (snd (hs ! i) < 5 / 100))"
    by (simp add: contact_flags_def CONTACT_HEIGHT_def)
  have up: "prev_contact st ! i = (0, 0) \<and> contact_flags (hs ! i) = (1, 1) \<longrightarrow> v ! i = 1"
    and half: "prev_contact st ! i = (0, 0) \<and> contact_flags (hs ! i) = (1, 0) \<longrightarrow> v ! i = 0"
    using row by auto
  from eq len flags row up half show ?thesis
    by blast
qed

theorem foot_contact_switch_value_witness:
  "current_ankle_heights ex_stepped = Some [(1 / 100, 15 / 100), (2 / 10, 3 / 10)] \<and>
   length (prev_contact ex_stepped) = length [(1 / 100, 15 / 100 :: real), (2 / 10, 3 / 10)] \<and>
   (0::nat) < length [(1 / 100, 15 / 100 :: real), (2 / 10, 3 / 10)] \<and>
   (\<exists>v. reward_foot_contact_switch ex_stepped =
           Inr (v, ex_stepped\<lparr>prev_contact := [(1, 0), (0, 0)]\<rparr>) \<and> v ! 0 = 0)"
proof -
  have h: "current_ankle_heights ex_stepped = Some [(1 / 100, 15 / 100), (2 / 10, 3 / 10)]"
    and l: "length (prev_contact ex_stepped) = length [(1 / 100, 15 / 100 :: real), (2 / 10, 3 / 10)]"
    and p: "prev_contact ex_stepped ! 0 = (0, 0)"
    by (simp_all add: ex_stepped_def ex_env_def)
  have c: "map contact_flags [(1 / 100, 15 / 100), (2 / 10, 3 / 10)] = [(1, 0), (0, 0)]"
    by (simp add: contact_flags_def b2f_def CONTACT_HEIGHT_def)
  from foot_contact_switch_value [OF h l, of 0] p c h l show ?thesis
    by (auto simp: contact_flags_def b2f_def CONTACT_HEIGHT_def)
qed


section \<open>Gait regularity\<close>

lemma periodicity_spec_example:
  "periodicity_spec [1 / 4, 1 / 2, 3 / 4, 0, 0, 0, 0, 0, 0, 0] = 1 / 16"
  by (simp add: periodicity_spec_def lessThan_nat_numeral lessThan_Suc sgn_real_def)


text \<open>
  Claim C7, at an input where the code departs from it. After three ticks of a mirrored gait
  (left hip 0.25, 0.5, 0.75, right hip the negatives) the history of row 0 is not all-zero,
  yet the sum over the whole history buffer is zero, and that sum is what the method tests:
  it returns the phase reward 1 alone, where the formula of the claim gives 1 + 1/16.
\<close>

theorem gait_regularity_cancelling_history:
  "reward_gait_regularity ex_stepped = Inr [1, 1] \<and>
   history_sum (hip_angle_history ex_stepped) = 0 \<and>
   exp (- \<bar>(3 / 4 :: real) + (- 3 / 4)\<bar> / (3 / 10)) +
     periodicity_spec (fst (hip_angle_history ex_stepped ! 0)) = 17 / 16"
  by (simp add: reward_gait_regularity_def ex_stepped_def ex_env_def col_def history_sum_def
      periodicity_spec_example sum_list_replicate numeral_2_eq_2)

section \<open>Command resampling\<close>


lemma length_gs_rand_float [simp]: "length (gs_rand_float lower upper n r) = n"
  by (simp add: gs_rand_float_def torch_rand_def)


lemma rows_okI:
  "length t = n \<Longrightarrow> (\<And>i. i < n \<Longrightarrow> length (t ! i) = w) \<Longrightarrow> rows_ok n w t"
  by (auto simp: rows_ok_def list_all_length)

lemma rows_ok_set_col [simp]: "rows_ok n w (set_col c t ids vs) = rows_ok n w t"
  by (auto simp: rows_ok_def list_all_length)


lemma resampled_Nil [simp]: "resampled st [] R = commands st"
  by (cases R) (simp add: resampled_def)

lemma length_resampled [simp]: "length (resampled st env_ids R) = length (commands st)"
  by (cases R) (simp add: resampled_def)

lemma length_nth_resampled [simp]:
  "length (resampled st env_ids R ! j) = length (commands st ! j)"
  by (cases R) (simp add: resampled_def)

lemma rows_ok_resampled [simp]:
  "rows_ok n w (resampled st env_ids R) = rows_ok n w (commands st)"
  by (cases R) (simp add: resampled_def)









section \<open>Reset\<close>

lemma log_episode_ok:
  "len_s \<noteq> 0 \<or> acc = [] \<Longrightarrow>
   log_episode len_s env_ids acc =
     Inr (map (\<lambda>na. (''rew_'' @ fst na,
                      sum_list (gather_rows (snd na) env_ids) / real (length env_ids) / len_s)) acc,
          map (\<lambda>na. (fst na, fill_rows (snd na) env_ids 0)) acc)"
  by (induction acc) auto

lemma reset_idx_Nil [simp]: "reset_idx st [] R = Inr st"
  by (simp add: reset_idx_def)

lemma reset_idx_Inr:
  assumes "env_ids \<noteq> []" and "list_all (\<lambda>i. i < num_envs st) env_ids"
    and "2 < num_commands st"
    and "episode_length_s (env_cfg st) \<noteq> 0 \<or> episode_sums st = []"
  shows "reset_idx st env_ids R =
     Inr (st\<lparr>prev_contact :=
               scatter_rows (prev_contact st) env_ids
                 (map contact_flags
                    (case current_ankle_heights st of
                       Some hs \<Rightarrow> gather_rows hs env_ids
                     | None \<Rightarrow> replicate (length env_ids) (0, 0))),
             dof_pos := fill_rows (dof_pos st) env_ids (default_dof_pos st),
             dof_vel := zero_rows (dof_vel st) env_ids,
             base_pos := fill_rows (base_pos st) env_ids (base_init_pos st),
             base_quat := fill_rows (base_quat st) env_ids (base_init_quat st),
             base_lin_vel := fill_rows (base_lin_vel st) env_ids (0, 0, 0),
             base_ang_vel := fill_rows (base_ang_vel st) env_ids (0, 0, 0),
             last_actions := zero_rows (last_actions st) env_ids,
             last_dof_vel := zero_rows (last_dof_vel st) env_ids,
             episode_length_buf := fill_rows (episode_length_buf st) env_ids 0,
             reset_buf := fill_rows (reset_buf st) env_ids True,
             sim_calls := sim_calls st @
               [Set_dofs_position
                  (gather_rows (fill_rows (dof_pos st) env_ids (default_dof_pos st)) env_ids)
                  (motors_dof_idx st) True env_ids,
                Set_pos (gather_rows (fill_rows (base_pos st) env_ids (base_init_pos st)) env_ids)
                  False env_ids,
                Set_quat (gather_rows (fill_rows (base_quat st) env_ids (base_init_quat st)) env_ids)
                  False env_ids,
                Zero_all_dofs_velocity env_ids],
             extras := (extras st)\<lparr>episode :=
               Some (map (\<lambda>na. (''rew_'' @ fst na,
                                 sum_list (gather_rows (snd na) env_ids) / real (length env_ids)
                                   / episode_length_s (env_cfg st)))
                         (episode_sums st))\<rparr>,
             episode_sums := map (\<lambda>na. (fst na, fill_rows (snd na) env_ids 0)) (episode_sums st),
             commands := resampled st env_ids R\<rparr>)"
  using assms
  by (cases R)
     (simp add: reset_idx_def Let_def log_episode_ok resample_commands_def resampled_def)








lemma fill_rows_Nil [simp]: "fill_rows rows [] v = rows"
  by (simp add: fill_rows_def)

lemma zero_rows_Nil [simp]: "zero_rows rows [] = rows"
  by (simp add: zero_rows_def)

lemma scatter_rows_Nil [simp]: "scatter_rows rows [] vs = rows"
  by (simp add: scatter_rows_def)

lemma reset_idx_fields:
  assumes "list_all (\<lambda>i. i < num_envs st) env_ids" and "2 < num_commands st"
    and "episode_length_s (env_cfg st) \<noteq> 0 \<or> episode_sums st = []"
  shows "\<exists>st'. reset_idx st env_ids R = Inr st' \<and>
     prev_contact st' =
       scatter_rows (prev_contact st) env_ids
         (map contact_flags
            (case current_ankle_heights st of
               Some hs \<Rightarrow> gather_rows hs env_ids
             | None \<Rightarrow> replicate (length env_ids) (0, 0))) \<and>
     dof_pos st' = fill_rows (dof_pos st) env_ids (default_dof_pos st) \<and>
     dof_vel st' = zero_rows (dof_vel st) env_ids \<and>
     base_pos st' = fill_rows (base_pos st) env_ids (base_init_pos st) \<and>
     base_quat st' = fill_rows (base_quat st) env_ids (base_init_quat st) \<and>
     base_lin_vel st' = fill_rows (base_lin_vel st) env_ids (0, 0, 0) \<and>
     base_ang_vel st' = fill_rows (base_ang_vel st) env_ids (0, 0, 0) \<and>
     last_actions st' = zero_rows (last_actions st) env_ids \<and>
     last_dof_vel st' = zero_rows (last_dof_vel st) env_ids \<and>
     episode_length_buf st' = fill_rows (episode_length_buf st) env_ids 0 \<and>
     reset_buf st' = fill_rows (reset_buf st) env_ids True \<and>
     episode_sums st' = map (\<lambda>na. (fst na, fill_rows (snd na) env_ids 0)) (episode_sums st) \<and>
     commands st' = resampled st env_ids R \<and>
     obs_buf st' = obs_buf st \<and> rew_buf st' = rew_buf st \<and>
     hip_angle_history st' = hip_angle_history st \<and> history_idx st' = history_idx st \<and>
     reward_scales st' = reward_scales st \<and> reward_functions st' = reward_functions st \<and>
     max_episode_length st' = max_episode_length st \<and> base_euler st' = base_euler st \<and>
     actions st' = actions st \<and> critic (extras st') = critic (extras st) \<and>
     num_envs st' = num_envs st \<and> env_cfg st' = env_cfg st \<and> dt st' = dt st"
proof (cases "env_ids = []")
  case True
  have "map (\<lambda>na. (fst na, snd na)) (episode_sums st) = episode_sums st"
    by (induction "episode_sums st") auto
  then show ?thesis
    by (simp add: True)
next
  case False
  show ?thesis
    unfolding reset_idx_Inr [OF False assms]
    by simp
qed


section \<open>The reward loop\<close>

lemma map_of_dict_set: "map_of (dict_set d k v) = (map_of d)(k \<mapsto> v)"
  by (induction d k v rule: dict_set.induct) (auto simp: fun_eq_iff)

lemma keys_dict_set: "fst ` set (dict_set d k v) = insert k (fst ` set d)"
  by (induction d k v rule: dict_set.induct) auto

lemma dict_get_Inr: "k \<in> fst ` set d \<Longrightarrow> dict_get d k = Inr (the (map_of d k))"
  by (auto simp: dict_get_def map_of_eq_None_iff split: option.splits)

lemma call_reward_Inr:
  assumes "evaluable s"
  shows "call_reward G fn s =
           Inr (reward_value G fn s,
                if fn = Foot_contact_switch
                then s\<lparr>prev_contact := map contact_flags (the (current_ankle_heights s))\<rparr>
                else s)"
  using assms
  by (cases fn)
     (auto simp: evaluable_def reward_value_def pure_reward_def attr_def col_def col2_def Let_def
        reward_tracking_lin_vel_def reward_tracking_ang_vel_def reward_lin_vel_z_def
        reward_action_rate_def reward_similar_to_default_def reward_base_height_def
        reward_orientation_stability_def reward_survive_def reward_penalize_hip_aa_def
        reward_penalize_hip_fe_def reward_penalize_hip_fe_diff_def
        reward_penalize_knee_fe_left_def reward_penalize_knee_fe_right_def
        reward_penalize_ankle_height_def reward_gait_regularity_def reward_foot_orientation_def
        reward_step_height_consistency_def reward_foot_contact_penalty_def
        reward_foot_contact_switch_def)

lemma reward_value_rew_buf [simp]:
  "reward_value G fn (s\<lparr>rew_buf := a\<rparr>) = reward_value G fn s"
  by (cases fn)
     (auto simp: reward_value_def pure_reward_def attr_def col_def col2_def Let_def
        reward_tracking_lin_vel_def reward_tracking_ang_vel_def reward_lin_vel_z_def
        reward_action_rate_def reward_similar_to_default_def reward_base_height_def
        reward_orientation_stability_def reward_survive_def reward_penalize_hip_aa_def
        reward_penalize_hip_fe_def reward_penalize_hip_fe_diff_def
        reward_penalize_knee_fe_left_def reward_penalize_knee_fe_right_def
        reward_penalize_ankle_height_def reward_gait_regularity_def reward_foot_orientation_def
        reward_step_height_consistency_def reward_foot_contact_penalty_def
        reward_foot_contact_switch_def split: sum.splits option.splits)

lemma reward_value_episode_sums [simp]:
  "reward_value G fn (s\<lparr>episode_sums := a\<rparr>) = reward_value G fn s"
  by (cases fn)
     (auto simp: reward_value_def pure_reward_def attr_def col_def col2_def Let_def
        reward_tracking_lin_vel_def reward_tracking_ang_vel_def reward_lin_vel_z_def
        reward_action_rate_def reward_similar_to_default_def reward_base_height_def
        reward_orientation_stability_def reward_survive_def reward_penalize_hip_aa_def
        reward_penalize_hip_fe_def reward_penalize_hip_fe_diff_def
        reward_penalize_knee_fe_left_def reward_penalize_knee_fe_right_def
        reward_penalize_ankle_height_def reward_gait_regularity_def reward_foot_orientation_def
        reward_step_height_consistency_def reward_foot_contact_penalty_def
        reward_foot_contact_switch_def split: sum.splits option.splits)

lemma reward_value_prev_contact:
  "fn \<noteq> Foot_contact_switch \<Longrightarrow>
   reward_value G fn (s\<lparr>prev_contact := a\<rparr>) = reward_value G fn s"
  by (cases fn)
     (auto simp: reward_value_def pure_reward_def attr_def col_def col2_def Let_def
        reward_tracking_lin_vel_def reward_tracking_ang_vel_def reward_lin_vel_z_def
        reward_action_rate_def reward_similar_to_default_def reward_base_height_def
        reward_orientation_stability_def reward_survive_def reward_penalize_hip_aa_def
        reward_penalize_hip_fe_def reward_penalize_hip_fe_diff_def
        reward_penalize_knee_fe_left_def reward_penalize_knee_fe_right_def
        reward_penalize_ankle_height_def reward_gait_regularity_def reward_foot_orientation_def
        reward_step_height_consistency_def reward_foot_contact_penalty_def
        split: sum.splits option.splits)


lemma term_value_rew_buf [simp]: "term_value G (s\<lparr>rew_buf := a\<rparr>) nf = term_value G s nf"
  by (simp add: term_value_def registered_scale_def)

lemma term_value_episode_sums [simp]:
  "term_value G (s\<lparr>episode_sums := a\<rparr>) nf = term_value G s nf"
  by (simp add: term_value_def registered_scale_def)

lemma term_value_prev_contact:
  "snd nf \<noteq> Foot_contact_switch \<Longrightarrow> term_value G (s\<lparr>prev_contact := a\<rparr>) nf = term_value G s nf"
  by (simp add: term_value_def registered_scale_def reward_value_prev_contact)

lemma evaluable_updates [simp]:
  "evaluable (s\<lparr>rew_buf := a\<rparr>) = evaluable s"
  "evaluable (s\<lparr>episode_sums := b\<rparr>) = evaluable s"
  "evaluable (s\<lparr>prev_contact := c\<rparr>) = evaluable s"
  "evaluable (s\<lparr>obs_buf := d\<rparr>) = evaluable s"
  by (simp_all add: evaluable_def)

lemma reward_loop_Cons:
  assumes "evaluable s" "name \<in> fst ` set (reward_scales s)" "name \<in> fst ` set (episode_sums s)"
  shows "reward_loop G ((name, fn) # rest) s =
      reward_loop G rest
        ((if fn = Foot_contact_switch
          then s\<lparr>prev_contact := map contact_flags (the (current_ankle_heights s))\<rparr>
          else s)
           \<lparr>rew_buf := add32 (rew_buf s) (term_value G s (name, fn)),
            episode_sums := accumulate G s (episode_sums s) (name, fn)\<rparr>)"
proof -
  have sc: "map_of (reward_scales s) name = Some (registered_scale s name)"
    using assms(2) by (auto simp: registered_scale_def map_of_eq_None_iff split: option.splits)
  obtain acc where es: "map_of (episode_sums s) name = Some acc"
    using assms(3) by (cases "map_of (episode_sums s) name") (auto simp: map_of_eq_None_iff)
  show ?thesis
    using assms(1)
    by (simp add: call_reward_Inr Let_def term_value_def accumulate_def dict_get_def sc es)
qed

lemma reward_loop_Inr:
  assumes "evaluable s" and "distinct (map snd fns)"
    and "\<forall>nf\<in>set fns. fst nf \<in> fst ` set (reward_scales s)"
    and "\<forall>nf\<in>set fns. fst nf \<in> fst ` set (episode_sums s)"
  shows "reward_loop G fns s =
     Inr (s\<lparr>rew_buf := foldl add32 (rew_buf s) (map (term_value G s) fns),
             episode_sums := foldl (accumulate G s) (episode_sums s) fns,
             prev_contact :=
               (if Foot_contact_switch \<in> snd ` set fns
                then map contact_flags (the (current_ankle_heights s))
                else prev_contact s)\<rparr>)"
  using assms
proof (induction fns arbitrary: s)
  case Nil
  then show ?case by simp
next
  case (Cons nf rest)
  obtain name fn where nf: "nf = (name, fn)" by (cases nf)
  define s1 where "s1 = (if fn = Foot_contact_switch
          then s\<lparr>prev_contact := map contact_flags (the (current_ankle_heights s))\<rparr>
          else s)"
  define s3 where "s3 = s1\<lparr>rew_buf := add32 (rew_buf s) (term_value G s (name, fn)),
            episode_sums := accumulate G s (episode_sums s) (name, fn)\<rparr>"
  have step: "reward_loop G (nf # rest) s = reward_loop G rest s3"
    unfolding nf s3_def s1_def using Cons.prems by (intro reward_loop_Cons) (auto simp: nf)
  have ev: "evaluable s3"
    using Cons.prems(1) by (simp add: s3_def s1_def)
  have rs: "reward_scales s3 = reward_scales s" and cah: "current_ankle_heights s3 = current_ankle_heights s"
    and rb: "rew_buf s3 = add32 (rew_buf s) (term_value G s (name, fn))"
    and es: "episode_sums s3 = accumulate G s (episode_sums s) (name, fn)"
    by (simp_all add: s3_def s1_def)
  have notin: "fn \<notin> snd ` set rest" and d: "distinct (map snd rest)"
    using Cons.prems(2) by (auto simp: nf)
  have tv: "term_value G s3 x = term_value G s x" if "x \<in> set rest" for x
  proof -
    from that notin have "fn = Foot_contact_switch \<Longrightarrow> snd x \<noteq> Foot_contact_switch"
      by force
    then show ?thesis
      by (simp add: s3_def s1_def term_value_prev_contact)
  qed
  have acc: "accumulate G s3 e x = accumulate G s e x" if "x \<in> set rest" for x e
    using tv [OF that] by (simp add: accumulate_def)
  have m: "map (term_value G s3) rest = map (term_value G s) rest"
    using tv by simp
  have f: "foldl (accumulate G s3) e rest = foldl (accumulate G s) e rest" for e
    using acc by (intro foldl_cong) auto
  have keys: "\<forall>x\<in>set rest. fst x \<in> fst ` set (reward_scales s3)"
      "\<forall>x\<in>set rest. fst x \<in> fst ` set (episode_sums s3)"
    using Cons.prems(3,4) by (auto simp: rs es accumulate_def keys_dict_set)
  have pc: "(if Foot_contact_switch \<in> snd ` set rest
             then map contact_flags (the (current_ankle_heights s3)) else prev_contact s3) =
            (if Foot_contact_switch \<in> snd ` set (nf # rest)
             then map contact_flags (the (current_ankle_heights s)) else prev_contact s)"
    using notin by (auto simp: s3_def s1_def nf)
  show ?case
    unfolding step Cons.IH [OF ev d keys] m f pc rb es cah
    by (simp add: s3_def s1_def nf)
qed

lemma length_add32 [simp]: "length (add32 a b) = min (length a) (length b)"
  by (simp add: add32_def)

lemma foldl_add32_rows:
  "\<forall>v\<in>set vs. length v = length z \<Longrightarrow>
   length (foldl add32 z vs) = length z \<and>
   (\<forall>i<length z. foldl add32 z vs ! i = foldl (\<lambda>a v. f32 (a + v ! i)) (z ! i) vs)"
proof (induction vs arbitrary: z)
  case Nil
  then show ?case by simp
next
  case (Cons v vs)
  have l: "length (add32 z v) = length z" using Cons.prems by simp
  have "\<forall>w\<in>set vs. length w = length (add32 z v)" using Cons.prems l by simp
  from Cons.IH [OF this] l Cons.prems show ?case
    by (simp add: add32_def)
qed

lemma map_of_accumulate:
  "map_of (accumulate G s es x) n =
     (if n = fst x then Some (add32 (the (map_of es (fst x))) (term_value G s x)) else map_of es n)"
  by (simp add: accumulate_def map_of_dict_set)

lemma map_of_foldl_accumulate_other:
  "name \<notin> fst ` set fns \<Longrightarrow> map_of (foldl (accumulate G s) es fns) name = map_of es name"
  by (induction fns arbitrary: es) (auto simp: map_of_accumulate)

lemma map_of_foldl_accumulate:
  "nf \<in> set fns \<Longrightarrow> distinct (map fst fns) \<Longrightarrow>
   map_of (foldl (accumulate G s) es fns) (fst nf) =
     Some (add32 (the (map_of es (fst nf))) (term_value G s nf))"
proof (induction fns arbitrary: es)
  case Nil
  then show ?case by simp
next
  case (Cons x fns)
  show ?case
  proof (cases "nf = x")
    case True
    with Cons.prems have "fst nf \<notin> fst ` set fns" by auto
    then have "map_of (foldl (accumulate G s) (accumulate G s es x) fns) (fst nf) =
                 map_of (accumulate G s es x) (fst nf)"
      by (rule map_of_foldl_accumulate_other)
    then show ?thesis
      unfolding True by (simp add: map_of_accumulate)
  next
    case False
    with Cons.prems have in_rest: "nf \<in> set fns" and d: "distinct (map fst fns)"
      and ne: "fst x \<noteq> fst nf"
      by (auto simp: image_iff)
    show ?thesis
      using Cons.IH [OF in_rest d, of "accumulate G s es x"] ne
      by (simp add: map_of_accumulate)
  qed
qed

lemma length_reward_value:
  assumes "evaluable s" and "shaped s"
  shows "length (reward_value G fn s) = num_envs s"
  using assms
  by (cases fn)
     (auto simp: evaluable_def shaped_def reward_value_def pure_reward_def attr_def col_def
        col2_def Let_def
        reward_tracking_lin_vel_def reward_tracking_ang_vel_def reward_lin_vel_z_def
        reward_action_rate_def reward_similar_to_default_def reward_base_height_def
        reward_orientation_stability_def reward_survive_def reward_penalize_hip_aa_def
        reward_penalize_hip_fe_def reward_penalize_hip_fe_diff_def
        reward_penalize_knee_fe_left_def reward_penalize_knee_fe_right_def
        reward_penalize_ankle_height_def reward_gait_regularity_def reward_foot_orientation_def
        reward_step_height_consistency_def reward_foot_contact_penalty_def
        reward_foot_contact_switch_def)

lemma length_term_value:
  "evaluable s \<Longrightarrow> shaped s \<Longrightarrow> length (term_value G s nf) = num_envs s"
  by (simp add: term_value_def length_reward_value)

lemma term_value_rew_buf_fun [simp]: "term_value G (s\<lparr>rew_buf := a\<rparr>) = term_value G s"
  by (simp add: fun_eq_iff)

lemma accumulate_rew_buf [simp]: "accumulate G (s\<lparr>rew_buf := a\<rparr>) = accumulate G s"
  by (simp add: accumulate_def fun_eq_iff)

lemma compute_reward_Inr:
  assumes "evaluable s" and "distinct (map snd (reward_functions s))"
    and "\<forall>nf\<in>set (reward_functions s). fst nf \<in> fst ` set (reward_scales s)"
    and "\<forall>nf\<in>set (reward_functions s). fst nf \<in> fst ` set (episode_sums s)"
  shows "compute_reward G s = Inr (rewarded G s)"
proof -
  let ?s = "s\<lparr>rew_buf := map (\<lambda>_. 0) (rew_buf s)\<rparr>"
  have "reward_loop G (reward_functions s) ?s =
     Inr (?s\<lparr>rew_buf := foldl add32 (rew_buf ?s) (map (term_value G ?s) (reward_functions s)),
             episode_sums := foldl (accumulate G ?s) (episode_sums ?s) (reward_functions s),
             prev_contact :=
               (if Foot_contact_switch \<in> snd ` set (reward_functions s)
                then map contact_flags (the (current_ankle_heights ?s))
                else prev_contact ?s)\<rparr>)"
    using assms by (intro reward_loop_Inr) simp_all
  then show ?thesis
    by (simp add: compute_reward_def rewarded_def)
qed


section \<open>The blocks of step\<close>

lemma nonzero_bound_le: "length bs \<le> n \<Longrightarrow> list_all (\<lambda>i. i < n) (nonzero bs)"
  by (auto simp: nonzero_def list_all_iff)

lemma before_reward_Inr:
  assumes "clip_actions (env_cfg st) \<noteq> None"
    and "fst (hip_fe_indices st) < num_actions st" and "snd (hip_fe_indices st) < num_actions st"
    and "py_int (f64 (resampling_time_s (env_cfg st) / dt st)) \<noteq> 0"
    and "length (episode_length_buf st) = num_envs st"
    and "2 < num_commands st"
  shows "before_reward G st acts rd R1 = Inr (ticked G st acts rd R1)"
  using assms
  by (cases R1)
     (auto simp: before_reward_def apply_actions_def read_back_def update_hip_history_def
        resample_due_def check_termination_def col_def attr_def Let_def
        resample_commands_def resampled_def nonzero_bound_le due_rows_def done_flags_def
        ticked_def)

lemma assemble_obs_Inr:
  assumes "obs_scales s ''ang_vel'' = Some a" "obs_scales s ''dof_pos'' = Some p"
    "obs_scales s ''dof_vel'' = Some v"
  shows "assemble_obs s = Inr (s\<lparr>obs_buf := map (obs_row s a p v) [0..<num_envs s]\<rparr>)"
  using assms by (simp add: assemble_obs_def map_get_def)

lemma ticked_evaluable:
  "wf_env st \<Longrightarrow> evaluable (ticked G st acts rd R1)"
  by (simp add: evaluable_def ticked_def Let_def wf_env_def)

lemma ticked_shaped:
  assumes "wf_env st" "wf_reading (num_envs st) (num_actions st) rd" "length acts = num_envs st"
  shows "shaped (ticked G st acts rd R1)"
  using assms
  by (simp add: shaped_def ticked_def Let_def wf_env_def wf_reading_def rows_ok_def)

lemma step_Inr:
  assumes "wf_env st"
  shows "step G st acts rd R1 R2 =
     (case reset_idx (pre_reset G st acts rd R1) (nonzero (done_flags G st rd)) R2 of
        Inl e \<Rightarrow> Inl e
      | Inr s7 \<Rightarrow> Inr ((obs_buf s7, rew_buf s7, reset_buf s7, extras s7), s7))"
proof -
  let ?t = "ticked G st acts rd R1"
  have b: "before_reward G st acts rd R1 = Inr ?t"
    using assms by (intro before_reward_Inr) (simp_all add: wf_env_def)
  have tf: "reward_functions ?t = reward_functions st" "reward_scales ?t = reward_scales st"
    "episode_sums ?t = episode_sums st" "obs_scales ?t = obs_scales st"
    by (simp_all add: ticked_def Let_def)
  have c: "compute_reward G ?t = Inr (rewarded G ?t)"
    using assms ticked_evaluable [OF assms]
    by (intro compute_reward_Inr) (auto simp: tf wf_env_def list_all_iff)
  obtain a p v where sc: "obs_scales st ''ang_vel'' = Some a" "obs_scales st ''dof_pos'' = Some p"
      "obs_scales st ''dof_vel'' = Some v"
    using assms by (auto simp: wf_env_def)
  have o: "assemble_obs (rewarded G ?t) = Inr (observed (rewarded G ?t))"
    using sc by (simp add: assemble_obs_def map_get_def observed_def rewarded_def tf)
  have r: "reset_buf (finish_step (observed (rewarded G ?t))) = done_flags G st rd"
    by (simp add: finish_step_def observed_def rewarded_def ticked_def Let_def)
  show ?thesis
    by (simp add: step_def b c o r pre_reset_def)
qed

lemma ticked_fields [simp]:
  "num_envs (ticked G st acts rd R1) = num_envs st"
  "num_actions (ticked G st acts rd R1) = num_actions st"
  "num_commands (ticked G st acts rd R1) = num_commands st"
  "env_cfg (ticked G st acts rd R1) = env_cfg st"
  "dt (ticked G st acts rd R1) = dt st"
  "max_episode_length (ticked G st acts rd R1) = max_episode_length st"
  "obs_scales (ticked G st acts rd R1) = obs_scales st"
  "reward_scales (ticked G st acts rd R1) = reward_scales st"
  "reward_functions (ticked G st acts rd R1) = reward_functions st"
  "episode_sums (ticked G st acts rd R1) = episode_sums st"
  "rew_buf (ticked G st acts rd R1) = rew_buf st"
  "prev_contact (ticked G st acts rd R1) = prev_contact st"
  "commands_scale (ticked G st acts rd R1) = commands_scale st"
  "default_dof_pos (ticked G st acts rd R1) = default_dof_pos st"
  "base_init_pos (ticked G st acts rd R1) = base_init_pos st"
  "base_init_quat (ticked G st acts rd R1) = base_init_quat st"
  "extras (ticked G st acts rd R1) = extras st"
  "reset_buf (ticked G st acts rd R1) = done_flags G st rd"
  "commands (ticked G st acts rd R1) = resampled st (due_rows st) R1"
  "current_ankle_heights (ticked G st acts rd R1) =
     Some (zip (map z3 (right_foot_pos rd)) (map z3 (left_foot_pos rd)))"
  "base_euler (ticked G st acts rd R1) =
     Some (map (quat_to_xyz G)
             (map (\<lambda>q. transform_quat_by_quat G (inv_base_init_quat st) q) (robot_quat rd)))"
  "episode_length_buf (ticked G st acts rd R1) = map (\<lambda>n. int32 (n + 1)) (episode_length_buf st)"
  "base_pos (ticked G st acts rd R1) = robot_pos rd"
  "base_quat (ticked G st acts rd R1) = robot_quat rd"
  "dof_pos (ticked G st acts rd R1) = dofs_position rd"
  "dof_vel (ticked G st acts rd R1) = dofs_velocity rd"
  "base_lin_vel (ticked G st acts rd R1) =
     map2 (transform_by_quat G) (robot_vel rd) (map (inv_quat G) (robot_quat rd))"
  "base_ang_vel (ticked G st acts rd R1) =
     map2 (transform_by_quat G) (robot_ang rd) (map (inv_quat G) (robot_quat rd))"
  "projected_gravity (ticked G st acts rd R1) =
     map2 (transform_by_quat G) (global_gravity st) (map (inv_quat G) (robot_quat rd))"
  "actions (ticked G st acts rd R1) =
     map (map (clip (f32 (- the (clip_actions (env_cfg st)))) (f32 (the (clip_actions (env_cfg st)))))) acts"
  "history_idx (ticked G st acts rd R1) = (history_idx st + 1) mod 10"
  "hip_angle_history (ticked G st acts rd R1) =
     map2 (\<lambda>h c. ((fst h)[history_idx st := fst c], (snd h)[history_idx st := snd c]))
          (hip_angle_history st)
          (zip (map (\<lambda>r. r ! fst (hip_fe_indices st)) (dofs_position rd))
               (map (\<lambda>r. r ! snd (hip_fe_indices st)) (dofs_position rd)))"
  by (simp_all add: ticked_def Let_def)

lemma pre_reset_fields [simp]:
  "num_envs (pre_reset G st acts rd R1) = num_envs st"
  "num_actions (pre_reset G st acts rd R1) = num_actions st"
  "num_commands (pre_reset G st acts rd R1) = num_commands st"
  "env_cfg (pre_reset G st acts rd R1) = env_cfg st"
  "dt (pre_reset G st acts rd R1) = dt st"
  "max_episode_length (pre_reset G st acts rd R1) = max_episode_length st"
  "reward_scales (pre_reset G st acts rd R1) = reward_scales st"
  "reward_functions (pre_reset G st acts rd R1) = reward_functions st"
  "default_dof_pos (pre_reset G st acts rd R1) = default_dof_pos st"
  "base_init_pos (pre_reset G st acts rd R1) = base_init_pos st"
  "base_init_quat (pre_reset G st acts rd R1) = base_init_quat st"
  "reset_buf (pre_reset G st acts rd R1) = done_flags G st rd"
  "commands (pre_reset G st acts rd R1) = resampled st (due_rows st) R1"
  "current_ankle_heights (pre_reset G st acts rd R1) =
     Some (zip (map z3 (right_foot_pos rd)) (map z3 (left_foot_pos rd)))"
  "base_euler (pre_reset G st acts rd R1) =
     Some (map (quat_to_xyz G)
             (map (\<lambda>q. transform_quat_by_quat G (inv_base_init_quat st) q) (robot_quat rd)))"
  "episode_length_buf (pre_reset G st acts rd R1) = map (\<lambda>n. int32 (n + 1)) (episode_length_buf st)"
  "base_pos (pre_reset G st acts rd R1) = robot_pos rd"
  "base_quat (pre_reset G st acts rd R1) = robot_quat rd"
  "dof_pos (pre_reset G st acts rd R1) = dofs_position rd"
  "dof_vel (pre_reset G st acts rd R1) = dofs_velocity rd"
  "base_lin_vel (pre_reset G st acts rd R1) =
     map2 (transform_by_quat G) (robot_vel rd) (map (inv_quat G) (robot_quat rd))"
  "base_ang_vel (pre_reset G st acts rd R1) =
     map2 (transform_by_quat G) (robot_ang rd) (map (inv_quat G) (robot_quat rd))"
  "actions (pre_reset G st acts rd R1) =
     map (map (clip (f32 (- the (clip_actions (env_cfg st)))) (f32 (the (clip_actions (env_cfg st)))))) acts"
  "last_actions (pre_reset G st acts rd R1) =
     map (map (clip (f32 (- the (clip_actions (env_cfg st)))) (f32 (the (clip_actions (env_cfg st)))))) acts"
  "last_dof_vel (pre_reset G st acts rd R1) = dofs_velocity rd"
  "history_idx (pre_reset G st acts rd R1) = (history_idx st + 1) mod 10"
  "hip_angle_history (pre_reset G st acts rd R1) =
     map2 (\<lambda>h c. ((fst h)[history_idx st := fst c], (snd h)[history_idx st := snd c]))
          (hip_angle_history st)
          (zip (map (\<lambda>r. r ! fst (hip_fe_indices st)) (dofs_position rd))
               (map (\<lambda>r. r ! snd (hip_fe_indices st)) (dofs_position rd)))"
  "rew_buf (pre_reset G st acts rd R1) =
     foldl add32 (map (\<lambda>_. 0) (rew_buf st))
       (map (term_value G (ticked G st acts rd R1)) (reward_functions st))"
  "episode_sums (pre_reset G st acts rd R1) =
     foldl (accumulate G (ticked G st acts rd R1)) (episode_sums st) (reward_functions st)"
  "prev_contact (pre_reset G st acts rd R1) =
     (if Foot_contact_switch \<in> snd ` set (reward_functions st)
      then map contact_flags (zip (map z3 (right_foot_pos rd)) (map z3 (left_foot_pos rd)))
      else prev_contact st)"
  "obs_buf (pre_reset G st acts rd R1) =
     map (obs_row (rewarded G (ticked G st acts rd R1)) (the (obs_scales st ''ang_vel''))
            (the (obs_scales st ''dof_pos'')) (the (obs_scales st ''dof_vel''))) [0..<num_envs st]"
  "critic (extras (pre_reset G st acts rd R1)) = Some (obs_buf (pre_reset G st acts rd R1))"
  by (simp_all add: pre_reset_def finish_step_def observed_def rewarded_def Let_def)

lemma length_done_flags:
  "length (done_flags G st rd) = min (length (episode_length_buf st)) (length (robot_quat rd))"
  by (simp add: done_flags_def Let_def)

lemma nth_done_flags:
  assumes "i < length (episode_length_buf st)" "i < length (robot_quat rd)"
  shows "done_flags G st rd ! i \<longleftrightarrow>
           max_episode_length st < int32 (episode_length_buf st ! i + 1) \<or>
           f32 (termination_if_pitch_greater_than (env_cfg st)) <
             \<bar>y3 (quat_to_xyz G (transform_quat_by_quat G (inv_base_init_quat st) (robot_quat rd ! i)))\<bar> \<or>
           f32 (termination_if_roll_greater_than (env_cfg st)) <
             \<bar>x3 (quat_to_xyz G (transform_quat_by_quat G (inv_base_init_quat st) (robot_quat rd ! i)))\<bar>"
  using assms by (simp add: done_flags_def Let_def)

text \<open>What \<open>step\<close> returns, and the object it leaves, in terms of the reset of the done rows.\<close>

lemma step_result:
  assumes "wf_env st"
  shows "\<exists>st'. step G st acts rd R1 R2 =
                 Inr ((obs_buf st', rew_buf st', reset_buf st', extras st'), st') \<and>
               reset_idx (pre_reset G st acts rd R1) (nonzero (done_flags G st rd)) R2 = Inr st'"
proof -
  let ?p = "pre_reset G st acts rd R1"
  have "length (done_flags G st rd) \<le> num_envs ?p"
    using assms by (simp add: length_done_flags wf_env_def)
  then have ids: "list_all (\<lambda>i. i < num_envs ?p) (nonzero (done_flags G st rd))"
    by (rule nonzero_bound_le)
  have "2 < num_commands ?p" "episode_length_s (env_cfg ?p) \<noteq> 0 \<or> episode_sums ?p = []"
    using assms by (simp_all add: wf_env_def)
  from reset_idx_fields [OF ids this, of R2]
  obtain st' where "reset_idx ?p (nonzero (done_flags G st rd)) R2 = Inr st'" by blast
  then show ?thesis
    unfolding step_Inr [OF assms] by simp
qed


section \<open>Termination\<close>

lemma f32_tenth64: "f32 (3602879701896397 / 2 ^ 55) = tenth32"
  unfolding f32_def tenth32_def
  by (subst float_round_eval [of "- 4"]) (simp_all add: pow2_def rne_def)

lemma init_timing:
  assumes "DodoEnv_init G N ecfg ocfg rcfg ccfg = Inr s0"
  shows "dt s0 = f64 (1 / 100)"
    and "max_episode_length s0 = \<lceil>f64 (episode_length_s ecfg / f64 (1 / 100))\<rceil>"
    and "env_cfg s0 = ecfg"
  using assms
  by (auto simp: DodoEnv_init_def Let_def split: sum.splits prod.splits)

lemma step_done:
  assumes "wf_env st" and "length (robot_quat rd) = num_envs st"
  shows "\<exists>obs rew done ext st' eul.
           step G st acts rd R1 R2 = Inr ((obs, rew, done, ext), st') \<and>
           reset_buf st' = done \<and> length done = num_envs st \<and>
           max_episode_length st' = max_episode_length st \<and>
           base_euler st' = Some eul \<and>
           eul = map (\<lambda>q. quat_to_xyz G (transform_quat_by_quat G (inv_base_init_quat st) q))
                     (robot_quat rd) \<and>
           (\<forall>i<num_envs st.
              done ! i \<longleftrightarrow>
                max_episode_length st < int32 (episode_length_buf st ! i + 1) \<or>
                f32 (termination_if_pitch_greater_than (env_cfg st)) < \<bar>y3 (eul ! i)\<bar> \<or>
                f32 (termination_if_roll_greater_than (env_cfg st)) < \<bar>x3 (eul ! i)\<bar>)"
proof -
  let ?p = "pre_reset G st acts rd R1"
  let ?d = "done_flags G st rd"
  have len: "length (episode_length_buf st) = num_envs st"
    using assms(1) by (simp add: wf_env_def)
  from step_result [OF assms(1), of G acts rd R1 R2]
  obtain st' where s: "step G st acts rd R1 R2 =
                 Inr ((obs_buf st', rew_buf st', reset_buf st', extras st'), st')"
    and r: "reset_idx ?p (nonzero ?d) R2 = Inr st'" by blast
  have ids: "list_all (\<lambda>i. i < num_envs ?p) (nonzero ?d)"
    using len assms(2) by (intro nonzero_bound_le) (simp add: length_done_flags)
  have pre: "2 < num_commands ?p" "episode_length_s (env_cfg ?p) \<noteq> 0 \<or> episode_sums ?p = []"
    using assms(1) by (simp_all add: wf_env_def)
  from reset_idx_fields [OF ids pre, of R2] r
  have f: "reset_buf st' = fill_rows ?d (nonzero ?d) True"
    "max_episode_length st' = max_episode_length st"
    "base_euler st' = Some (map (quat_to_xyz G)
             (map (\<lambda>q. transform_quat_by_quat G (inv_base_init_quat st) q) (robot_quat rd)))"
    by auto
  have d: "reset_buf st' = ?d" using f(1) by (simp add: fill_rows_nonzero)
  have l: "length ?d = num_envs st" using len assms(2) by (simp add: length_done_flags)
  have rows: "\<forall>i<num_envs st.
      ?d ! i \<longleftrightarrow>
        max_episode_length st < int32 (episode_length_buf st ! i + 1) \<or>
        f32 (termination_if_pitch_greater_than (env_cfg st)) <
          \<bar>y3 (map (\<lambda>q. quat_to_xyz G (transform_quat_by_quat G (inv_base_init_quat st) q))
                     (robot_quat rd) ! i)\<bar> \<or>
        f32 (termination_if_roll_greater_than (env_cfg st)) <
          \<bar>x3 (map (\<lambda>q. quat_to_xyz G (transform_quat_by_quat G (inv_base_init_quat st) q))
                     (robot_quat rd) ! i)\<bar>"
    using len assms(2) by (simp add: nth_done_flags)
  show ?thesis
    using s d l f(2) f(3) rows unfolding d
    by (intro exI [of _ "obs_buf st'"] exI [of _ "rew_buf st'"] exI [of _ ?d]
        exI [of _ "extras st'"] exI [of _ st']
        exI [of _ "map (\<lambda>q. quat_to_xyz G (transform_quat_by_quat G (inv_base_init_quat st) q))
                     (robot_quat rd)"]) (simp add: d)
qed

text \<open>
  Claim C1, as amended. \<open>step\<close> returns normally and, for every environment row, the done
  flag it returns (which is also the reset flag it leaves) is true if and only if the row's
  step counter after the increment of this call exceeds max_episode_length, or the absolute
  pitch exceeds the configured pitch threshold cast to float32, or the absolute roll exceeds
  the configured roll threshold cast to float32; no other condition marks a row done. Pitch
  and roll are the second and first Euler angle, in degrees, that \<open>step\<close> computes from the
  reported base orientation relative to the initial one. The counter is an int32 number.
  Construction sets dt to the float64 nearest to 0.01 and max_episode_length to the ceiling
  of the float64 quotient episode_length_s / dt; \<open>step\<close> leaves it as it is.
\<close>

theorem step_termination:
  assumes "wf_env st" and "length (robot_quat rd) = num_envs st"
    and "DodoEnv_init G N ecfg ocfg rcfg ccfg = Inr s0"
  shows "(\<exists>obs rew done ext st' eul.
           step G st acts rd R1 R2 = Inr ((obs, rew, done, ext), st') \<and>
           reset_buf st' = done \<and> length done = num_envs st \<and>
           max_episode_length st' = max_episode_length st \<and>
           base_euler st' = Some eul \<and>
           eul = map (\<lambda>q. quat_to_xyz G (transform_quat_by_quat G (inv_base_init_quat st) q))
                     (robot_quat rd) \<and>
           (\<forall>i<num_envs st.
              done ! i \<longleftrightarrow>
                max_episode_length st < int32 (episode_length_buf st ! i + 1) \<or>
                f32 (termination_if_pitch_greater_than (env_cfg st)) < \<bar>y3 (eul ! i)\<bar> \<or>
                f32 (termination_if_roll_greater_than (env_cfg st)) < \<bar>x3 (eul ! i)\<bar>)) \<and>
         dt s0 = f64 (1 / 100) \<and>
         max_episode_length s0 = \<lceil>f64 (episode_length_s (env_cfg s0) / dt s0)\<rceil>"
  using step_done [OF assms(1,2)] init_timing [OF assms(3)] by simp

theorem step_termination_witness:
  "wf_env ex_env \<and> length (robot_quat ex_rd) = num_envs ex_env \<and>
   DodoEnv_init ex_G 2 ex_ecfg ex_ocfg ex_rcfg ex_ccfg = Inr ex_env \<and>
   max_episode_length ex_env = 2000 \<and>
   (\<exists>obs rew ext st'.
      step ex_G ex_env ex_actions ex_rd ex_draws ex_draws = Inr ((obs, rew, [True, False], ext), st'))"
proof -
  have h: "length (robot_quat ex_rd) = num_envs ex_env"
    by (simp add: ex_rd_def ex_env_def)
  have e: "map (\<lambda>q. quat_to_xyz ex_G (transform_quat_by_quat ex_G (inv_base_init_quat ex_env) q))
               (robot_quat ex_rd) = [(0, 40, 0), (0, 0, 0)]"
    by (simp add: ex_rd_def ex_G_def)
  have v: "num_envs ex_env = 2" "max_episode_length ex_env = 2000"
    "episode_length_buf ex_env = [0, 0]"
    "termination_if_pitch_greater_than (env_cfg ex_env) = 30"
    "termination_if_roll_greater_than (env_cfg ex_env) = 30"
    by (simp_all add: ex_env_def ex_ecfg_def)
  from step_termination [OF ex_env_wf h ex_env_init,
      where acts = ex_actions and ?R1.0 = ex_draws and ?R2.0 = ex_draws]
  obtain obs rew dn ext st' where s: "step ex_G ex_env ex_actions ex_rd ex_draws ex_draws =
        Inr ((obs, rew, dn, ext), st')"
    and l: "length dn = 2"
    and r: "\<forall>i<2. dn ! i \<longleftrightarrow>
                2000 < int32 (episode_length_buf ex_env ! i + 1) \<or>
                30 < \<bar>y3 ([(0, 40, 0), (0, 0, 0)] ! i)\<bar> \<or>
                30 < \<bar>x3 ([(0, 40, 0), (0, 0, 0)] ! i :: vec3)\<bar>"
    unfolding e v by (auto simp: v)
  from r have "dn ! 0" "\<not> dn ! 1"
    by (simp_all add: v int32_def)
  with l have "dn = [True, False]"
    by (cases dn; cases "tl dn") auto
  with s ex_env_wf h ex_env_init v(2) show ?thesis by blast
qed

lemma ex_edge_wf: "wf_env ex_edge"
  by (simp add: wf_env_def ex_edge_def ex_env_def rows_ok_def ex_ecfg_def ex_ocfg_def py_int_def
      f64_4_dt64)

text \<open>
  Claim C1 as stated fails for a threshold that is not a float32 number. With the pitch
  threshold 0.1 and a reported pitch of 13421773 / 2^27 = 0.100000001490116..., which is the
  float32 nearest to 0.1, the pitch exceeds the configured threshold and the row is not
  marked done: the comparison is made with the threshold cast to float32, which is that
  same number.
\<close>

theorem pitch_at_rounded_threshold:
  "termination_if_pitch_greater_than (env_cfg ex_edge) = 3602879701896397 / 2 ^ 55 \<and>
   robot_quat ex_rd_edge ! 0 = (1, 0, 13421773 / 2 ^ 27, 0) \<and>
   (3602879701896397 / 2 ^ 55 :: real) < 13421773 / 2 ^ 27 \<and>
   (case step ex_G ex_edge ex_actions ex_rd_edge ex_draws ex_draws of
      Inl e \<Rightarrow> False
    | Inr ((obs, rew, done, ext), st') \<Rightarrow>
        (case base_euler st' of
           None \<Rightarrow> False
         | Some eul \<Rightarrow> \<bar>y3 (eul ! 0)\<bar> = 13421773 / 2 ^ 27) \<and>
        \<not> done ! 0)"
proof -
  have h: "length (robot_quat ex_rd_edge) = num_envs ex_edge"
    by (simp add: ex_rd_edge_def ex_edge_def ex_env_def)
  have e: "map (\<lambda>q. quat_to_xyz ex_G (transform_quat_by_quat ex_G (inv_base_init_quat ex_edge) q))
               (robot_quat ex_rd_edge) = [(0, tenth32, 0), (0, 0, 0)]"
    by (simp add: ex_rd_edge_def ex_G_def tenth32_def)
  have v: "num_envs ex_edge = 2" "max_episode_length ex_edge = 2000"
    "episode_length_buf ex_edge = [0, 0]"
    "termination_if_pitch_greater_than (env_cfg ex_edge) = 3602879701896397 / 2 ^ 55"
    "termination_if_roll_greater_than (env_cfg ex_edge) = 30"
    by (simp_all add: ex_edge_def ex_env_def ex_ecfg_def)
  from step_done [OF ex_edge_wf h,
      where G = ex_G and acts = ex_actions and ?R1.0 = ex_draws and ?R2.0 = ex_draws]
  obtain obs rew dn ext st' where s: "step ex_G ex_edge ex_actions ex_rd_edge ex_draws ex_draws =
        Inr ((obs, rew, dn, ext), st')"
    and b: "base_euler st' = Some [(0, tenth32, 0), (0, 0, 0)]"
    and r: "\<forall>i<2. dn ! i \<longleftrightarrow>
                2000 < int32 (episode_length_buf ex_edge ! i + 1) \<or>
                tenth32 < \<bar>y3 ([(0, tenth32, 0), (0, 0, 0)] ! i)\<bar> \<or>
                30 < \<bar>x3 ([(0, tenth32, 0), (0, 0, 0)] ! i :: vec3)\<bar>"
    unfolding e v f32_tenth64 by (auto simp: v)
  have "0 < tenth32" by (simp add: tenth32_def)
  with r have "\<not> dn ! 0"
    by (simp add: v int32_def)
  moreover have "\<bar>tenth32\<bar> = 13421773 / 2 ^ 27" by (simp add: tenth32_def)
  ultimately show ?thesis
    using s b by (simp add: v ex_rd_edge_def)
qed


section \<open>The observation\<close>

lemma rewarded_fields [simp]:
  "base_ang_vel (rewarded G s) = base_ang_vel s"
  "projected_gravity (rewarded G s) = projected_gravity s"
  "commands (rewarded G s) = commands s"
  "commands_scale (rewarded G s) = commands_scale s"
  "dof_pos (rewarded G s) = dof_pos s"
  "dof_vel (rewarded G s) = dof_vel s"
  "default_dof_pos (rewarded G s) = default_dof_pos s"
  "actions (rewarded G s) = actions s"
  by (simp_all add: rewarded_def)











end
